theory Spec2Isabelle
  imports Complex_Main "HOL-Library.Log_Nat"
begin

section \<open>Values shared by the whole program\<close>

text \<open>
  The program is \<^verbatim>\<open>src/index.ts\<close>. The repository holds a second copy of this entry
  point, without \<^verbatim>\<open>createPublicKey\<close> and without the refusals of the detection
  block; of that copy only the detection block is modelled, as \<open>part_001_detect\<close>.
  A price or a size of an order book level is a JavaScript \<^verbatim>\<open>number\<close> that the decoder
  library computed from integers; it is taken to be finite and kept as the rational it
  denotes. What the program computes from prices is computed in double arithmetic, below.
\<close>

type_synonym num = rat

text \<open>
  A thrown value: an instance of \<^verbatim>\<open>Error\<close> with its message, or a value that is not an
  \<^verbatim>\<open>Error\<close> (the catch blocks test \<^verbatim>\<open>error instanceof Error\<close>).
  A function that may throw returns \<open>exn + 'a\<close>, with \<open>Inl\<close> for the throw.
\<close>

datatype exn = Error string | NonError

text \<open>The two program identifiers, lines 5 and 6.\<close>

definition OPENBOOK_PROGRAM_ID :: string where
  "OPENBOOK_PROGRAM_ID = ''srmqPvymJeFKQ4zGQed1GFppgkRHL9kaELCbyksJtPX''"

definition SERUM_PROGRAM_ID :: string where
  "SERUM_PROGRAM_ID = ''9xQeWvG816bUx9EPjHmaT23yvVM2ZWbrrpZb9PusVFin''"

text \<open>
  The catch block that several functions share:
  \<^verbatim>\<open>if (error instanceof Error) { throw error; } throw new Error(msg);\<close>
\<close>

definition rethrow :: "string \<Rightarrow> exn \<Rightarrow> exn" where
  "rethrow msg e = (case e of Error m \<Rightarrow> Error m | NonError \<Rightarrow> Error msg)"

text \<open>\<^verbatim>\<open>s.includes(t)\<close>: \<open>t\<close> occurs in \<open>s\<close> as a contiguous run.\<close>

fun str_includes :: "string \<Rightarrow> string \<Rightarrow> bool" where
  "str_includes [] t = (t = [])"
| "str_includes (c # cs) t = (take (length t) (c # cs) = t \<or> str_includes cs t)"

section \<open>Double arithmetic\<close>

text \<open>
  A JavaScript \<^verbatim>\<open>number\<close> as a result of arithmetic: an IEEE 754 binary64 value.
  \<open>Num r\<close> is the finite double of value \<open>r\<close>, \<open>Num 0\<close> being positive zero.
\<close>

datatype number = NaN | NegInfinity | PosInfinity | NegZero | Num rat

text \<open>The binary exponent of a positive rational: \<open>2 powi e \<le> m < 2 powi (e + 1)\<close>.\<close>

definition ilog2 :: "rat \<Rightarrow> int" where
  "ilog2 m =
     (case quotient_of m of
        (p, q) \<Rightarrow> let d = bitlen p - bitlen q in if 2 powi d \<le> m then d else d - 1)"

text \<open>The nearest integer, a tie going to the even one.\<close>

definition roundTiesToEven :: "rat \<Rightarrow> int" where
  "roundTiesToEven t =
     (let f = \<lfloor>t\<rfloor>; d = t - of_int f
      in if d < 1 / 2 then f
         else if 1 / 2 < d then f + 1
         else if even f then f else f + 1)"

text \<open>
  The double nearest to an exact result, ties to even: 53 significant bits, exponents
  from -1022 (below it the subnormals, whole multiples of \<open>2 powi (- 1074)\<close>) to 1023,
  overflow to an infinity, underflow to a zero of the sign of the result.
\<close>

definition round64 :: "rat \<Rightarrow> number" where
  "round64 r =
     (if r = 0 then Num 0
      else let m = \<bar>r\<bar>;
               e = max (ilog2 m) (- 1022);
               q = 2 powi (e - 52);
               n = roundTiesToEven (m / q)
           in if n = 0 then (if r < 0 then NegZero else Num 0)
              else if 2 powi 1024 \<le> of_int n * q
              then (if r < 0 then NegInfinity else PosInfinity)
              else Num (if r < 0 then - (of_int n * q) else of_int n * q))"

text \<open>A rational is the value of a double when rounding leaves it as it is.\<close>

definition is_double64 :: "rat \<Rightarrow> bool" where
  "is_double64 r = (round64 r = Num r)"

fun isInfinite :: "number \<Rightarrow> bool" where
  "isInfinite NegInfinity = True"
| "isInfinite PosInfinity = True"
| "isInfinite x = False"

fun isZero :: "number \<Rightarrow> bool" where
  "isZero NegZero = True"
| "isZero (Num r) = (r = 0)"
| "isZero x = False"

fun negative :: "number \<Rightarrow> bool" where
  "negative NegInfinity = True"
| "negative NegZero = True"
| "negative (Num r) = (r < 0)"
| "negative x = False"

fun valueOf :: "number \<Rightarrow> rat" where
  "valueOf (Num r) = r"
| "valueOf x = 0"

definition signedZero :: "bool \<Rightarrow> number" where
  "signedZero neg = (if neg then NegZero else Num 0)"

definition signedInfinity :: "bool \<Rightarrow> number" where
  "signedInfinity neg = (if neg then NegInfinity else PosInfinity)"

fun fneg :: "number \<Rightarrow> number" where
  "fneg NaN = NaN"
| "fneg NegInfinity = PosInfinity"
| "fneg PosInfinity = NegInfinity"
| "fneg NegZero = Num 0"
| "fneg (Num r) = (if r = 0 then NegZero else Num (- r))"

text \<open>
  Addition: an exact sum of zero is positive zero, but for two negative zeros; the
  difference \<^verbatim>\<open>x - y\<close> is the sum of \<open>x\<close> and the negation of \<open>y\<close>.
\<close>

definition fadd :: "number \<Rightarrow> number \<Rightarrow> number" where
  "fadd x y =
     (if x = NaN \<or> y = NaN then NaN
      else if isInfinite x \<and> isInfinite y then (if x = y then x else NaN)
      else if isInfinite x then x
      else if isInfinite y then y
      else if isZero x \<and> isZero y
      then (if x = NegZero \<and> y = NegZero then NegZero else Num 0)
      else round64 (valueOf x + valueOf y))"

definition fsub :: "number \<Rightarrow> number \<Rightarrow> number" where
  "fsub x y = fadd x (fneg y)"

text \<open>\<^verbatim>\<open>x * y\<close> and \<^verbatim>\<open>x / y\<close>; the sign of a zero or an infinity is that of the operands.\<close>

definition fmul :: "number \<Rightarrow> number \<Rightarrow> number" where
  "fmul x y =
     (if x = NaN \<or> y = NaN then NaN
      else if (isInfinite x \<and> isZero y) \<or> (isZero x \<and> isInfinite y) then NaN
      else let neg = (negative x \<noteq> negative y)
           in if isInfinite x \<or> isInfinite y then signedInfinity neg
              else if isZero x \<or> isZero y then signedZero neg
              else round64 (valueOf x * valueOf y))"

definition fdiv :: "number \<Rightarrow> number \<Rightarrow> number" where
  "fdiv x y =
     (if x = NaN \<or> y = NaN then NaN
      else if (isInfinite x \<and> isInfinite y) \<or> (isZero x \<and> isZero y) then NaN
      else let neg = (negative x \<noteq> negative y)
           in if isInfinite x then signedInfinity neg
              else if isInfinite y then signedZero neg
              else if isZero y then signedInfinity neg
              else if isZero x then signedZero neg
              else round64 (valueOf x / valueOf y))"

text \<open>
  The truthiness of a \<^verbatim>\<open>number | null\<close>: \<^verbatim>\<open>null\<close>, \<^verbatim>\<open>NaN\<close> and the two zeros are
  falsy.
\<close>

definition truthy :: "number option \<Rightarrow> bool" where
  "truthy x = (case x of None \<Rightarrow> False | Some v \<Rightarrow> v \<noteq> NaN \<and> \<not> isZero v)"

section \<open>The data of the source\<close>

datatype side = Bid | Ask

text \<open>\<^verbatim>\<open>interface OrderBookLevel\<close>, lines 55 to 59 (the field \<^verbatim>\<open>size\<close> is \<open>lsize\<close> here).\<close>

record OrderBookLevel =
  price :: num
  lsize :: num
  side :: side

record OrderBook =
  bids :: "OrderBookLevel list"
  asks :: "OrderBookLevel list"

text \<open>\<^verbatim>\<open>interface TokenMetadata\<close>, lines 75 to 79.\<close>

record TokenMetadata =
  symbol :: string
  name :: string
  decimals :: int

text \<open>
  The fields that an entry of \<^verbatim>\<open>KNOWN_MARKETS\<close> (lines 478 to 488) and a
  \<^verbatim>\<open>MarketInfo\<close> (lines 61 to 73) have in common, then the two records.
  The field \<^verbatim>\<open>name\<close> of an entry is \<open>market_name\<close> here.
\<close>

record MarketFields =
  baseMint :: string
  quoteMint :: string
  minOrderSize :: num
  priceTick :: num
  eventQueueLength :: int
  requestQueueLength :: int
  bidsLength :: int
  asksLength :: int

record KnownMarket = MarketFields +
  market_name :: string

record MarketInfo = MarketFields +
  address :: string
  baseSymbol :: string
  quoteSymbol :: string

section \<open>The external collaborators\<close>

text \<open>
  What \<^verbatim>\<open>connection.getAccountInfo\<close> resolves to when the account exists: only the
  owner is read, as the base-58 string that \<^verbatim>\<open>owner.toString()\<close> gives.
\<close>

record AccountInfo =
  owner :: string

text \<open>
  The \<^verbatim>\<open>data\<close> of the value of \<^verbatim>\<open>connection.getParsedAccountInfo\<close>: raw bytes, on
  which \<^verbatim>\<open>parsedData.parsed.info\<close> throws a TypeError, or a parsed mint with its decimals.
\<close>

datatype ParsedAccountData = RawData | ParsedMint int

text \<open>
  An order queue as the decoder library returns it from \<^verbatim>\<open>loadBids\<close> and
  \<^verbatim>\<open>loadAsks\<close>: the object is used through its method \<^verbatim>\<open>getL2(depth)\<close> only, which
  gives (price, size) pairs. The method belongs to the library, so it is a parameter.
\<close>

datatype Orderbook = Orderbook (getL2: "nat \<Rightarrow> (num \<times> num) list")

text \<open>A loaded \<^verbatim>\<open>Market\<close> of the library: the two mints and the two queue loaders.\<close>

record Market =
  baseMintAddress :: string
  quoteMintAddress :: string
  loadBids :: "exn + Orderbook"
  loadAsks :: "exn + Orderbook"

text \<open>What \<^verbatim>\<open>JSON.parse\<close> makes of the text of a store file.\<close>

datatype json =
    SyntaxError
  | JsonNull
  | JsonData "(string \<rightharpoonup> KnownMarket) option" "(string \<rightharpoonup> string) option"

text \<open>
  The world an invocation runs in. \<open>validKey a\<close> says that \<^verbatim>\<open>new PublicKey(a)\<close>
  succeeds; the two account fetches and \<^verbatim>\<open>Market.load\<close> answer or throw;
  \<^verbatim>\<open>JSON.parse\<close> and \<^verbatim>\<open>JSON.stringify\<close> are the runtime's; \<open>writable f\<close> says that
  \<^verbatim>\<open>fs.writeFileSync\<close> on \<open>f\<close> succeeds.
\<close>

record env =
  validKey :: "string \<Rightarrow> bool"
  getAccountInfo :: "string \<Rightarrow> exn + AccountInfo option"
  getParsedAccountInfo :: "string \<Rightarrow> exn + ParsedAccountData option"
  Market_load :: "string \<Rightarrow> string \<Rightarrow> exn + Market"
  JSON_parse :: "string \<Rightarrow> json"
  JSON_stringify :: "(string \<rightharpoonup> KnownMarket) \<Rightarrow> (string \<rightharpoonup> string) \<Rightarrow> string"
  writable :: "string \<Rightarrow> bool"

section \<open>Loading a market and reading its order book\<close>

text \<open>\<^verbatim>\<open>createPublicKey\<close>, lines 12 to 18. A key is kept as its base-58 string.\<close>

definition createPublicKey :: "env \<Rightarrow> string \<Rightarrow> exn + string" where
  "createPublicKey E a =
     (if validKey E a then Inr a else Inl (Error ''Invalid public key format''))"

text \<open>The catch block of \<^verbatim>\<open>loadOpenBookMarket\<close>, lines 230 to 245.\<close>

definition loadOpenBookMarket_catch :: "bool \<Rightarrow> exn \<Rightarrow> exn" where
  "loadOpenBookMarket_catch useSerum e =
     (let programName = (if useSerum then ''Serum'' else ''OpenBook'') in
      case e of
        Error m \<Rightarrow>
          if str_includes m ''Address not owned by program''
          then Error (''Market not owned by '' @ programName @ '' program'')
          else if str_includes m ''Market account not found''
          then Error ''Market account not found''
          else Error (''Failed to load '' @ programName @ '' market: '' @ m)
      | NonError \<Rightarrow>
          Error (''Failed to load '' @ programName @ '' market: '' @ ''Unknown error''))"

text \<open>\<^verbatim>\<open>loadOpenBookMarket\<close>, lines 211 to 246.\<close>

definition loadOpenBookMarket :: "env \<Rightarrow> string \<Rightarrow> bool \<Rightarrow> exn + Market" where
  "loadOpenBookMarket E marketAddress useSerum =
     (case createPublicKey E marketAddress of
        Inl e \<Rightarrow> Inl (loadOpenBookMarket_catch useSerum e)
      | Inr marketPubkey \<Rightarrow>
          let programId = (if useSerum then SERUM_PROGRAM_ID else OPENBOOK_PROGRAM_ID) in
          (case createPublicKey E programId of
             Inl e \<Rightarrow> Inl (loadOpenBookMarket_catch useSerum e)
           | Inr programKey \<Rightarrow>
               (case Market_load E marketPubkey programKey of
                  Inl e \<Rightarrow> Inl (loadOpenBookMarket_catch useSerum e)
                | Inr market \<Rightarrow> Inr market)))"

text \<open>
  \<^verbatim>\<open>getRealOrderBook\<close>, lines 248 to 297. The parameter \<open>depth\<close> is there as in the
  source, which does not read it: both queues are asked for \<^verbatim>\<open>getL2(20)\<close>.
\<close>

definition getRealOrderBook :: "env \<Rightarrow> string \<Rightarrow> nat \<Rightarrow> bool \<Rightarrow> exn + OrderBook" where
  "getRealOrderBook E marketAddress depth useSerum =
     (case loadOpenBookMarket E marketAddress useSerum of
        Inl e \<Rightarrow> Inl (rethrow ''Failed to fetch order book'' e)
      | Inr market \<Rightarrow>
          (case loadBids market of
             Inl e \<Rightarrow> Inl (rethrow ''Failed to fetch order book'' e)
           | Inr bidsQ \<Rightarrow>
               (case loadAsks market of
                  Inl e \<Rightarrow> Inl (rethrow ''Failed to fetch order book'' e)
                | Inr asksQ \<Rightarrow>
                    let bidsArray = getL2 bidsQ 20;
                        asksArray = getL2 asksQ 20;
                        bidOrders = map (\<lambda>b. \<lparr>price = fst b, lsize = snd b, side = Bid\<rparr>) bidsArray;
                        askOrders = map (\<lambda>a. \<lparr>price = fst a, lsize = snd a, side = Ask\<rparr>) asksArray
                    in Inr \<lparr>bids = bidOrders, asks = askOrders\<rparr>)))"

text \<open>The result of \<^verbatim>\<open>getMarketStats\<close>, lines 316 to 323.\<close>

record MarketStats =
  totalBids :: nat
  totalAsks :: nat
  bestBid :: "number option"
  bestAsk :: "number option"
  spread :: "number option"
  spreadPercentage :: "number option"

text \<open>
  \<^verbatim>\<open>getMarketStats\<close>, lines 316 to 345. \<^verbatim>\<open>a && b ? x : y\<close> takes \<open>x\<close> when both
  \<open>a\<close> and \<open>b\<close> are truthy; \<^verbatim>\<open>-\<close>, \<^verbatim>\<open>/\<close> and \<^verbatim>\<open>*\<close> are the operations on
  doubles.
\<close>

definition getMarketStats :: "env \<Rightarrow> string \<Rightarrow> bool \<Rightarrow> exn + MarketStats" where
  "getMarketStats E marketAddress useSerum =
     (case getRealOrderBook E marketAddress 1 useSerum of
        Inl e \<Rightarrow> Inl e
      | Inr book \<Rightarrow>
          let bestBid = (case bids book of [] \<Rightarrow> None | b # _ \<Rightarrow> Some (Num (price b)));
              bestAsk = (case asks book of [] \<Rightarrow> None | a # _ \<Rightarrow> Some (Num (price a)));
              spread = (if truthy bestBid \<and> truthy bestAsk
                        then Some (fsub (the bestAsk) (the bestBid)) else None);
              spreadPercentage =
                (if truthy spread \<and> truthy bestBid
                 then Some (fmul (fdiv (the spread) (the bestBid)) (Num 100)) else None)
          in Inr \<lparr>totalBids = length (bids book), totalAsks = length (asks book),
                  bestBid = bestBid, bestAsk = bestAsk,
                  spread = spread, spreadPercentage = spreadPercentage\<rparr>)"

section \<open>The known-market store and the effects of an invocation\<close>

text \<open>
  A file of the installation directory: its text, or a file that exists and that
  \<^verbatim>\<open>fs.readFileSync\<close> cannot read.
\<close>

datatype file_entry = Unreadable | Text string

text \<open>
  The two module variables \<^verbatim>\<open>KNOWN_MARKETS\<close> and \<^verbatim>\<open>KNOWN_TOKEN_SYMBOLS\<close>
  (lines 82 and 83), the files, and two logs, oldest call first: the addresses given to
  \<^verbatim>\<open>connection.getParsedAccountInfo\<close> and the file names given to
  \<^verbatim>\<open>fs.writeFileSync\<close>. A key of an object that comes from its prototype
  (\<^verbatim>\<open>constructor\<close>) is not modelled: an object is the map of its own keys.
\<close>

record state =
  KNOWN_MARKETS :: "string \<rightharpoonup> KnownMarket"
  KNOWN_TOKEN_SYMBOLS :: "string \<rightharpoonup> string"
  files :: "string \<rightharpoonup> file_entry"
  mint_lookups :: "string list"
  file_writes :: "string list"

text \<open>
  \<^verbatim>\<open>KNOWN_TOKEN_SYMBOLS[k]\<close> read for its truthiness, as lines 91, 494 and 498 do:
  a missing key gives \<^verbatim>\<open>undefined\<close> and the empty string is falsy too.
\<close>

definition knownSymbol :: "state \<Rightarrow> string \<Rightarrow> string option" where
  "knownSymbol s k =
     (case KNOWN_TOKEN_SYMBOLS s k of
        None \<Rightarrow> None
      | Some v \<Rightarrow> if v = [] then None else Some v)"

section \<open>Token metadata\<close>

text \<open>
  The body of the try block of \<^verbatim>\<open>getTokenMetadata\<close>, lines 87 to 114. The TypeError
  of line 107 on raw account data is \<open>Error ''TypeError''\<close>.
\<close>

definition getTokenMetadata_try ::
  "env \<Rightarrow> state \<Rightarrow> string \<Rightarrow> (exn + TokenMetadata) \<times> state" where
  "getTokenMetadata_try E s mintAddress =
     (case createPublicKey E mintAddress of
        Inl e \<Rightarrow> (Inl e, s)
      | Inr mintPubkey \<Rightarrow>
          (case knownSymbol s mintAddress of
             Some cached \<Rightarrow> (Inr \<lparr>symbol = cached, name = cached, decimals = 6\<rparr>, s)
           | None \<Rightarrow>
               let s1 = s\<lparr>mint_lookups := mint_lookups s @ [mintPubkey]\<rparr> in
               (case getParsedAccountInfo E mintPubkey of
                  Inl e \<Rightarrow> (Inl e, s1)
                | Inr None \<Rightarrow> (Inl (Error ''Token account not found''), s1)
                | Inr (Some RawData) \<Rightarrow> (Inl (Error ''TypeError''), s1)
                | Inr (Some (ParsedMint d)) \<Rightarrow>
                    (Inr \<lparr>symbol = take 8 mintAddress, name = ''Unknown Token'',
                          decimals = d\<rparr>, s1))))"

text \<open>\<^verbatim>\<open>getTokenMetadata\<close>, lines 85 to 124: the try block, then its catch block.\<close>

definition getTokenMetadata ::
  "env \<Rightarrow> state \<Rightarrow> string \<Rightarrow> (exn + TokenMetadata) \<times> state" where
  "getTokenMetadata E s mintAddress =
     (case getTokenMetadata_try E s mintAddress of
        (Inl e, s1) \<Rightarrow>
          (Inr \<lparr>symbol = take 8 mintAddress, name = ''Unknown Token'', decimals = 6\<rparr>, s1)
      | (Inr md, s1) \<Rightarrow> (Inr md, s1))"

section \<open>Market information\<close>

text \<open>The \<^verbatim>\<open>MarketInfo\<close> that both branches of \<^verbatim>\<open>getMarketInfo\<close> build.\<close>

definition mkMarketInfo ::
  "string \<Rightarrow> string \<Rightarrow> string \<Rightarrow> TokenMetadata \<Rightarrow> TokenMetadata \<Rightarrow>
   num \<Rightarrow> num \<Rightarrow> int \<Rightarrow> int \<Rightarrow> int \<Rightarrow> int \<Rightarrow> MarketInfo" where
  "mkMarketInfo a b q bm qm mos pt eql rql bl al =
     \<lparr>baseMint = b, quoteMint = q, minOrderSize = mos, priceTick = pt,
      eventQueueLength = eql, requestQueueLength = rql, bidsLength = bl, asksLength = al,
      address = a, baseSymbol = symbol bm, quoteSymbol = symbol qm\<rparr>"

text \<open>\<^verbatim>\<open>getMarketInfo\<close>, lines 126 to 178.\<close>

definition getMarketInfo ::
  "env \<Rightarrow> state \<Rightarrow> string \<Rightarrow> bool \<Rightarrow> (exn + MarketInfo) \<times> state" where
  "getMarketInfo E s marketAddress useSerum =
     (case KNOWN_MARKETS s marketAddress of
        Some marketData \<Rightarrow>
          (case getTokenMetadata E s (baseMint marketData) of
             (Inl e, s1) \<Rightarrow> (Inl (rethrow ''Failed to fetch market info'' e), s1)
           | (Inr baseMetadata, s1) \<Rightarrow>
               (case getTokenMetadata E s1 (quoteMint marketData) of
                  (Inl e, s2) \<Rightarrow> (Inl (rethrow ''Failed to fetch market info'' e), s2)
                | (Inr quoteMetadata, s2) \<Rightarrow>
                    (Inr (mkMarketInfo marketAddress (baseMint marketData)
                            (quoteMint marketData) baseMetadata quoteMetadata
                            (minOrderSize marketData) (priceTick marketData)
                            (eventQueueLength marketData) (requestQueueLength marketData)
                            (bidsLength marketData) (asksLength marketData)), s2)))
      | None \<Rightarrow>
          (case loadOpenBookMarket E marketAddress useSerum of
             Inl e \<Rightarrow> (Inl (rethrow ''Failed to fetch market info'' e), s)
           | Inr market \<Rightarrow>
               (case getTokenMetadata E s (baseMintAddress market) of
                  (Inl e, s1) \<Rightarrow> (Inl (rethrow ''Failed to fetch market info'' e), s1)
                | (Inr baseMetadata, s1) \<Rightarrow>
                    (case getTokenMetadata E s1 (quoteMintAddress market) of
                       (Inl e, s2) \<Rightarrow> (Inl (rethrow ''Failed to fetch market info'' e), s2)
                     | (Inr quoteMetadata, s2) \<Rightarrow>
                         (Inr (mkMarketInfo marketAddress (baseMintAddress market)
                                 (quoteMintAddress market) baseMetadata quoteMetadata
                                 1 (1 / 10000) 2978 63 909 909), s2)))))"

text \<open>\<^verbatim>\<open>getMarketAccounts\<close>, lines 180 to 209.\<close>

definition getMarketAccounts :: "env \<Rightarrow> string \<Rightarrow> bool \<Rightarrow> exn + AccountInfo" where
  "getMarketAccounts E marketAddress useSerum =
     (case createPublicKey E marketAddress of
        Inl e \<Rightarrow> Inl (rethrow ''Failed to fetch market accounts'' e)
      | Inr marketPubkey \<Rightarrow>
          (case getAccountInfo E marketPubkey of
             Inl e \<Rightarrow> Inl (rethrow ''Failed to fetch market accounts'' e)
           | Inr None \<Rightarrow> Inl (Error ''Market account not found'')
           | Inr (Some marketAccount) \<Rightarrow>
               let expectedProgramId =
                     (if useSerum then SERUM_PROGRAM_ID else OPENBOOK_PROGRAM_ID);
                   programName = (if useSerum then ''Serum'' else ''OpenBook'')
               in if owner marketAccount \<noteq> expectedProgramId
                  then Inl (Error (''Market not owned by '' @ programName @
                                   '' program. Owner: '' @ owner marketAccount))
                  else Inr marketAccount))"

text \<open>\<^verbatim>\<open>isValidMarket\<close>, lines 39 to 53.\<close>

definition isValidMarket :: "env \<Rightarrow> string \<Rightarrow> bool \<Rightarrow> bool" where
  "isValidMarket E marketAddress useSerum =
     (case createPublicKey E marketAddress of
        Inl e \<Rightarrow> False
      | Inr marketPubkey \<Rightarrow>
          (case getAccountInfo E marketPubkey of
             Inl e \<Rightarrow> False
           | Inr None \<Rightarrow> False
           | Inr (Some marketAccount) \<Rightarrow>
               owner marketAccount =
                 (if useSerum then SERUM_PROGRAM_ID else OPENBOOK_PROGRAM_ID)))"

text \<open>
  \<^verbatim>\<open>getOrderBook\<close>, lines 299 to 314; it calls both functions with the default
  \<^verbatim>\<open>useSerum = false\<close>.
\<close>

definition getOrderBook :: "env \<Rightarrow> string \<Rightarrow> nat \<Rightarrow> exn + OrderBook" where
  "getOrderBook E marketAddress depth =
     (case getMarketAccounts E marketAddress False of
        Inl e \<Rightarrow> Inl e
      | Inr marketAccount \<Rightarrow> getRealOrderBook E marketAddress depth False)"

section \<open>The two reports\<close>

text \<open>
  What \<^verbatim>\<open>displayOrderBook\<close> prints: the market name of the heading, the asks in the
  order printed (reversed), the bids, and the statistics. The formatting of a number by
  \<^verbatim>\<open>toFixed\<close> is not modelled.
\<close>

record OrderBookReport =
  shownName :: string
  shownAsks :: "OrderBookLevel list"
  shownBids :: "OrderBookLevel list"
  shownStats :: MarketStats

text \<open>
  The market name that both display functions compute first (lines 349 to 358 and
  411 to 420): the stored name or the address, replaced by base/quote symbols when
  \<^verbatim>\<open>getMarketInfo\<close> answers.
\<close>

definition displayName :: "env \<Rightarrow> state \<Rightarrow> string \<Rightarrow> bool \<Rightarrow> string \<times> state" where
  "displayName E s marketAddress useSerum =
     (let marketName =
            (case KNOWN_MARKETS s marketAddress of
               None \<Rightarrow> marketAddress
             | Some marketData \<Rightarrow>
                 if market_name marketData = [] then marketAddress
                 else market_name marketData)
      in case getMarketInfo E s marketAddress useSerum of
           (Inl e, s1) \<Rightarrow> (marketName, s1)
         | (Inr marketInfo, s1) \<Rightarrow>
             (baseSymbol marketInfo @ ''/'' @ quoteSymbol marketInfo, s1))"

text \<open>
  \<^verbatim>\<open>displayOrderBook\<close>, lines 347 to 407. A throw of \<^verbatim>\<open>getRealOrderBook\<close> is
  caught and printed: no report. The statistics are computed again here, lines 387 to 390.
\<close>

definition displayOrderBook ::
  "env \<Rightarrow> state \<Rightarrow> string \<Rightarrow> nat \<Rightarrow> bool \<Rightarrow> OrderBookReport option \<times> state" where
  "displayOrderBook E s marketAddress depth useSerum =
     (case displayName E s marketAddress useSerum of
        (marketName, s1) \<Rightarrow>
          (case getRealOrderBook E marketAddress depth useSerum of
             Inl e \<Rightarrow> (None, s1)
           | Inr book \<Rightarrow>
               let bestBid = (case bids book of [] \<Rightarrow> None | b # _ \<Rightarrow> Some (Num (price b)));
                   bestAsk = (case asks book of [] \<Rightarrow> None | a # _ \<Rightarrow> Some (Num (price a)));
                   spread = (if truthy bestBid \<and> truthy bestAsk
                             then Some (fsub (the bestAsk) (the bestBid)) else None);
                   spreadPercentage =
                     (if truthy spread \<and> truthy bestBid
                      then Some (fmul (fdiv (the spread) (the bestBid)) (Num 100)) else None)
               in (Some \<lparr>shownName = marketName, shownAsks = rev (asks book),
                          shownBids = bids book,
                          shownStats =
                            \<lparr>totalBids = length (bids book), totalAsks = length (asks book),
                             bestBid = bestBid, bestAsk = bestAsk,
                             spread = spread, spreadPercentage = spreadPercentage\<rparr>\<rparr>, s1)))"

text \<open>What \<^verbatim>\<open>displayMarketInfo\<close> prints.\<close>

record MarketInfoReport =
  infoName :: string
  info :: MarketInfo
  verified :: bool

text \<open>\<^verbatim>\<open>displayMarketInfo\<close>, lines 409 to 453.\<close>

definition displayMarketInfo ::
  "env \<Rightarrow> state \<Rightarrow> string \<Rightarrow> bool \<Rightarrow> MarketInfoReport option \<times> state" where
  "displayMarketInfo E s marketAddress useSerum =
     (case displayName E s marketAddress useSerum of
        (marketName, s1) \<Rightarrow>
          (case getMarketInfo E s1 marketAddress useSerum of
             (Inl e, s2) \<Rightarrow> (None, s2)
           | (Inr marketInfo, s2) \<Rightarrow>
               (Some \<lparr>infoName = marketName, info = marketInfo,
                       verified =
                         (case getMarketAccounts E marketAddress useSerum of
                            Inl e \<Rightarrow> False
                          | Inr marketAccount \<Rightarrow> True)\<rparr>, s2)))"

section \<open>Adding a market, saving and loading the store\<close>

text \<open>\<^verbatim>\<open>addMarketToKnownMarkets\<close>, lines 466 to 517; its catch block throws again.\<close>

definition addMarketToKnownMarkets ::
  "env \<Rightarrow> state \<Rightarrow> string \<Rightarrow> bool \<Rightarrow> (exn + unit) \<times> state" where
  "addMarketToKnownMarkets E s marketAddress useSerum =
     (case loadOpenBookMarket E marketAddress useSerum of
        Inl e \<Rightarrow> (Inl e, s)
      | Inr market \<Rightarrow>
          (case getTokenMetadata E s (baseMintAddress market) of
             (Inl e, s1) \<Rightarrow> (Inl e, s1)
           | (Inr baseMetadata, s1) \<Rightarrow>
               (case getTokenMetadata E s1 (quoteMintAddress market) of
                  (Inl e, s2) \<Rightarrow> (Inl e, s2)
                | (Inr quoteMetadata, s2) \<Rightarrow>
                    let marketInfo =
                          \<lparr>baseMint = baseMintAddress market,
                           quoteMint = quoteMintAddress market,
                           minOrderSize = 1, priceTick = 1 / 10000,
                           eventQueueLength = 2978, requestQueueLength = 63,
                           bidsLength = 909, asksLength = 909,
                           market_name = symbol baseMetadata @ ''/'' @ symbol quoteMetadata\<rparr>;
                        s3 = s2\<lparr>KNOWN_MARKETS := (KNOWN_MARKETS s2)(marketAddress \<mapsto> marketInfo)\<rparr>;
                        s4 = (if knownSymbol s3 (baseMintAddress market) = None
                              then s3\<lparr>KNOWN_TOKEN_SYMBOLS :=
                                        (KNOWN_TOKEN_SYMBOLS s3)
                                          (baseMintAddress market \<mapsto> symbol baseMetadata)\<rparr>
                              else s3);
                        s5 = (if knownSymbol s4 (quoteMintAddress market) = None
                              then s4\<lparr>KNOWN_TOKEN_SYMBOLS :=
                                        (KNOWN_TOKEN_SYMBOLS s4)
                                          (quoteMintAddress market \<mapsto> symbol quoteMetadata)\<rparr>
                              else s4)
                    in (Inr (), s5))))"

text \<open>The file of a program, lines 531 and 549.\<close>

definition storeFile :: "bool \<Rightarrow> string" where
  "storeFile useSerum =
     (if useSerum then ''known_serum_markets.json'' else ''known_openbook_markets.json'')"

text \<open>
  \<^verbatim>\<open>saveKnownMarketsToFile\<close>, lines 520 to 540. A throw of the write is caught and
  printed; the file is then taken to be as it was.
\<close>

definition saveKnownMarketsToFile :: "env \<Rightarrow> state \<Rightarrow> bool \<Rightarrow> state" where
  "saveKnownMarketsToFile E s useSerum =
     (let fileName = storeFile useSerum;
          content = JSON_stringify E (KNOWN_MARKETS s) (KNOWN_TOKEN_SYMBOLS s);
          s1 = s\<lparr>file_writes := file_writes s @ [fileName]\<rparr>
      in if writable E fileName
         then s1\<lparr>files := (files s1)(fileName \<mapsto> Text content)\<rparr>
         else s1)"

text \<open>Both variables set to the empty object, lines 566, 567, 572 and 573.\<close>

definition emptyStore :: "state \<Rightarrow> state" where
  "emptyStore s = s\<lparr>KNOWN_MARKETS := Map.empty, KNOWN_TOKEN_SYMBOLS := Map.empty\<rparr>"

text \<open>
  The body of the try block of \<^verbatim>\<open>loadKnownMarketsFromFile\<close>, lines 545 to 568.
  \<^verbatim>\<open>data.markets || {}\<close>: a missing or falsy field gives the empty object.
\<close>

definition loadKnownMarketsFromFile_try :: "env \<Rightarrow> state \<Rightarrow> bool \<Rightarrow> exn + state" where
  "loadKnownMarketsFromFile_try E s useSerum =
     (case files s (storeFile useSerum) of
        None \<Rightarrow> Inr (emptyStore s)
      | Some Unreadable \<Rightarrow> Inl (Error ''EACCES'')
      | Some (Text t) \<Rightarrow>
          (case JSON_parse E t of
             SyntaxError \<Rightarrow> Inl (Error ''SyntaxError'')
           | JsonNull \<Rightarrow> Inl (Error ''TypeError'')
           | JsonData markets symbols \<Rightarrow>
               Inr (s\<lparr>KNOWN_MARKETS := (case markets of None \<Rightarrow> Map.empty | Some m \<Rightarrow> m),
                      KNOWN_TOKEN_SYMBOLS :=
                        (case symbols of None \<Rightarrow> Map.empty | Some m \<Rightarrow> m)\<rparr>)))"

text \<open>\<^verbatim>\<open>loadKnownMarketsFromFile\<close>, lines 543 to 575: the try block, then its catch block.\<close>

definition loadKnownMarketsFromFile :: "env \<Rightarrow> state \<Rightarrow> bool \<Rightarrow> exn + state" where
  "loadKnownMarketsFromFile E s useSerum =
     (case loadKnownMarketsFromFile_try E s useSerum of
        Inl e \<Rightarrow> Inr (emptyStore s)
      | Inr s1 \<Rightarrow> Inr s1)"

section \<open>The entry point\<close>

text \<open>
  How an invocation ends, by what it prints last. \<open>NotAValidMarket\<close> is the message of
  lines 775 and 842, \<open>MarketAccountNotFound\<close> that of line 784, \<open>InvalidPublicKeyFormat\<close>
  that of lines 792, 824 and 855, \<open>AddressRequired\<close> that of line 745. The other outcomes
  carry the program the work was done for (\<open>True\<close> for Serum). The work of the version and
  update commands is not modelled.
\<close>

datatype outcome =
    HelpShown
  | VersionShown
  | UpdateChecked
  | AddressRequired
  | NotAValidMarket
  | MarketAccountNotFound
  | InvalidPublicKeyFormat
  | Listed bool
  | MarketAdded bool
  | AddFailed exn
  | FetchCompleted bool "MarketInfoReport option" "OrderBookReport option"
  | Failed exn

text \<open>What the detection block of \<^verbatim>\<open>main\<close> decides: return, or go on with a program.\<close>

datatype detection = Stop outcome | Go bool

text \<open>The catch block of the detection, lines 790 to 797.\<close>

definition main_detect_catch :: "exn \<Rightarrow> bool \<Rightarrow> detection" where
  "main_detect_catch e useSerumFlag =
     (if e = Error ''Invalid public key format'' then Stop InvalidPublicKeyFormat
      else Go useSerumFlag)"

text \<open>
  The detection block of \<^verbatim>\<open>main\<close>, lines 755 to 798: \<open>useSerum\<close> starts as the flag
  and is assigned from the owner of the account.
\<close>

definition main_detect :: "env \<Rightarrow> string list \<Rightarrow> string \<Rightarrow> bool \<Rightarrow> detection" where
  "main_detect E args targetMarket useSerumFlag =
     (if ''--list'' \<notin> set args \<and> ''-l'' \<notin> set args
      then (case createPublicKey E targetMarket of
              Inl e \<Rightarrow> main_detect_catch e useSerumFlag
            | Inr marketPubkey \<Rightarrow>
                (case getAccountInfo E marketPubkey of
                   Inl e \<Rightarrow> main_detect_catch e useSerumFlag
                 | Inr (Some marketAccount) \<Rightarrow>
                     if owner marketAccount = SERUM_PROGRAM_ID then Go True
                     else if owner marketAccount = OPENBOOK_PROGRAM_ID then Go False
                     else Stop NotAValidMarket
                 | Inr None \<Rightarrow> Stop MarketAccountNotFound))
      else Go useSerumFlag)"

text \<open>The add branch of \<^verbatim>\<open>main\<close>, lines 813 to 834.\<close>

definition main_add :: "env \<Rightarrow> state \<Rightarrow> string \<Rightarrow> bool \<Rightarrow> outcome \<times> state" where
  "main_add E s targetMarket useSerum =
     (case addMarketToKnownMarkets E s targetMarket useSerum of
        (Inr u, s1) \<Rightarrow> (MarketAdded useSerum, saveKnownMarketsToFile E s1 useSerum)
      | (Inl e, s1) \<Rightarrow>
          (if e = Error ''Invalid public key format'' then InvalidPublicKeyFormat
           else AddFailed e, s1))"

text \<open>
  The display branch of \<^verbatim>\<open>main\<close>, lines 838 to 860. None of the three functions it
  calls throws, so its catch block has no case here.
\<close>

definition main_display :: "env \<Rightarrow> state \<Rightarrow> string \<Rightarrow> bool \<Rightarrow> outcome \<times> state" where
  "main_display E s targetMarket useSerum =
     (if \<not> isValidMarket E targetMarket useSerum then (NotAValidMarket, s)
      else (case displayMarketInfo E s targetMarket useSerum of
              (r1, s1) \<Rightarrow>
                (case displayOrderBook E s1 targetMarket 15 useSerum of
                   (r2, s2) \<Rightarrow> (FetchCompleted useSerum r1 r2, s2))))"

text \<open>
  \<^verbatim>\<open>main\<close> from line 800 on, with the program that the detection left in
  \<open>useSerum\<close>. A throw that reaches the catch block of line 881 is \<open>Failed\<close>.
\<close>

definition main_run :: "env \<Rightarrow> state \<Rightarrow> string list \<Rightarrow> string \<Rightarrow> bool \<Rightarrow> outcome \<times> state" where
  "main_run E s args targetMarket useSerum =
     (case loadKnownMarketsFromFile E s useSerum of
        Inl e \<Rightarrow> (Failed e, s)
      | Inr s1 \<Rightarrow>
          if ''--list'' \<in> set args \<or> ''-l'' \<in> set args then (Listed useSerum, s1)
          else if (''--add'' \<in> set args \<or> ''-a'' \<in> set args)
                  \<and> targetMarket \<noteq> ''--add'' \<and> targetMarket \<noteq> ''-a''
                  \<and> targetMarket \<noteq> ''--serum'' \<and> targetMarket \<noteq> ''-s''
          then main_add E s1 targetMarket useSerum
          else main_display E s1 targetMarket useSerum)"

text \<open>\<^verbatim>\<open>main\<close>, lines 578 to 888. \<^verbatim>\<open>!args[0]\<close> holds of no argument and of an empty one.\<close>

definition main :: "env \<Rightarrow> state \<Rightarrow> string list \<Rightarrow> outcome \<times> state" where
  "main E s args =
     (if ''--help'' \<in> set args \<or> ''-h'' \<in> set args then (HelpShown, s)
      else if ''--version'' \<in> set args \<or> ''-v'' \<in> set args then (VersionShown, s)
      else if ''--update'' \<in> set args then (UpdateChecked, s)
      else (case args of
              [] \<Rightarrow> (AddressRequired, s)
            | targetMarket # rest \<Rightarrow>
                if targetMarket = [] then (AddressRequired, s)
                else let useSerumFlag = (''--serum'' \<in> set args \<or> ''-s'' \<in> set args) in
                     (case main_detect E args targetMarket useSerumFlag of
                        Stop out \<Rightarrow> (out, s)
                      | Go useSerum \<Rightarrow> main_run E s args targetMarket useSerum)))"

text \<open>
  The detection block of the second copy of the entry point (its lines 536 to 563), as
  the value it leaves in \<open>useSerum\<close>, which every later call of that \<^verbatim>\<open>main\<close> takes.
  There \<^verbatim>\<open>new PublicKey\<close> is called in the try block, whose catch block only prints,
  and an account of another owner or no account leaves the flag as it is.
\<close>

definition part_001_detect :: "env \<Rightarrow> string list \<Rightarrow> bool \<Rightarrow> bool" where
  "part_001_detect E args useSerumFlag =
     (case args of
        [] \<Rightarrow> useSerumFlag
      | targetMarket # rest \<Rightarrow>
          if targetMarket \<noteq> [] \<and> ''--list'' \<notin> set args \<and> ''-l'' \<notin> set args
          then (if \<not> validKey E targetMarket then useSerumFlag
                else (case getAccountInfo E targetMarket of
                        Inl e \<Rightarrow> useSerumFlag
                      | Inr None \<Rightarrow> useSerumFlag
                      | Inr (Some marketAccount) \<Rightarrow>
                          if owner marketAccount = SERUM_PROGRAM_ID then True
                          else if owner marketAccount = OPENBOOK_PROGRAM_ID then False
                          else useSerumFlag))
          else useSerumFlag)"

section \<open>Orderings of a book, and a small world to run the program in\<close>

text \<open>Best bid first: prices never rise along the bids. Best ask first: they never fall.\<close>

definition bidsDescending :: "OrderBook \<Rightarrow> bool" where
  "bidsDescending book = sorted_wrt (\<lambda>x y. price y \<le> price x) (bids book)"

definition asksAscending :: "OrderBook \<Rightarrow> bool" where
  "asksAscending book = sorted_wrt (\<lambda>x y. price x \<le> price y) (asks book)"

text \<open>The state of the module when it is loaded: both objects empty, no file, no call.\<close>

definition initial_state :: state where
  "initial_state =
     \<lparr>KNOWN_MARKETS = Map.empty, KNOWN_TOKEN_SYMBOLS = Map.empty, files = Map.empty,
      mint_lookups = [], file_writes = []\<rparr>"

text \<open>
  A world to run the program in. It has an OpenBook market and a Serum market, both
  trading the wrapped SOL mint against the USDC mint; the two queues of each hold the levels
  given as parameters, and their \<^verbatim>\<open>getL2(n)\<close> gives the first \<open>n\<close> of them.
  \<open>brokenMarket\<close> is an account of the OpenBook program that does not decode as a market;
  the system program and the two mints are accounts of other owners; every request about
  \<open>timeoutKey\<close> fails in transport; any other address, \<open>absentKey\<close> for one, has no
  account. A key is valid when it has 32 to 44
  characters. \<^verbatim>\<open>JSON.parse\<close> reads \<^verbatim>\<open>{}\<close> as an object without fields and
  \<^verbatim>\<open>null\<close> as null, and fails on any other text; \<^verbatim>\<open>JSON.stringify\<close> is cut down
  to a fixed text, which no statement below reads; every write succeeds.
\<close>

definition demoMarket :: string where
  "demoMarket = ''Gc4tfUHRNnpVwvASfQD3q26G8GNmLYuz4KzB4QNkNuiQ''"

definition serumMarket :: string where
  "serumMarket = ''8nqjw5UVN65GyfdqiXnfJNbDVBgbk8RpFFd7uACXenbx''"

definition brokenMarket :: string where
  "brokenMarket = ''EgnTFXgaQ8CzVSQJyTD2sT3Yx8esLgKf5e6YGvQfm2U7''"

definition timeoutKey :: string where
  "timeoutKey = ''3ySaxSspDCsEM53zRTfpyr9s9yfq9yNpZFXSEbvbadLf''"

definition SOL_MINT :: string where
  "SOL_MINT = ''So11111111111111111111111111111111111111112''"

definition USDC_MINT :: string where
  "USDC_MINT = ''EPjFWdd5AufqSSqeM2qN1xzybapC8G4wEGGkZwyTDt1v''"

definition SYSTEM_PROGRAM :: string where
  "SYSTEM_PROGRAM = ''11111111111111111111111111111111''"

definition NATIVE_LOADER :: string where
  "NATIVE_LOADER = ''NativeLoader1111111111111111111111111111111''"

definition TOKEN_PROGRAM :: string where
  "TOKEN_PROGRAM = ''TokenkegQfeZyiNwAJbNbGKPFXCWuBvf9Ss623VQ5DA''"

definition absentKey :: string where
  "absentKey = ''HjFijcGWKgfDwGpFX2rqFwEU9jtEgFuRQAJe1ERXFsA3''"

definition demo_market :: "(num \<times> num) list \<Rightarrow> (num \<times> num) list \<Rightarrow> Market" where
  "demo_market bidLevels askLevels =
     \<lparr>baseMintAddress = SOL_MINT, quoteMintAddress = USDC_MINT,
      loadBids = Inr (Orderbook (\<lambda>n. take n bidLevels)),
      loadAsks = Inr (Orderbook (\<lambda>n. take n askLevels))\<rparr>"

definition demo_env :: "(num \<times> num) list \<Rightarrow> (num \<times> num) list \<Rightarrow> env" where
  "demo_env bidLevels askLevels =
     \<lparr>validKey = (\<lambda>a. 32 \<le> length a \<and> length a \<le> 44),
      getAccountInfo =
        (\<lambda>a. if a = demoMarket \<or> a = brokenMarket
              then Inr (Some \<lparr>owner = OPENBOOK_PROGRAM_ID\<rparr>)
              else if a = serumMarket then Inr (Some \<lparr>owner = SERUM_PROGRAM_ID\<rparr>)
              else if a = SOL_MINT \<or> a = USDC_MINT then Inr (Some \<lparr>owner = TOKEN_PROGRAM\<rparr>)
              else if a = SYSTEM_PROGRAM then Inr (Some \<lparr>owner = NATIVE_LOADER\<rparr>)
              else if a = timeoutKey then Inl (Error ''fetch failed'')
              else Inr None),
      getParsedAccountInfo =
        (\<lambda>a. if a = SOL_MINT then Inr (Some (ParsedMint 9))
              else if a = USDC_MINT then Inr (Some (ParsedMint 6))
              else if a = demoMarket \<or> a = brokenMarket \<or> a = serumMarket
                      \<or> a = SYSTEM_PROGRAM
              then Inr (Some RawData)
              else if a = timeoutKey then Inl (Error ''fetch failed'')
              else Inr None),
      Market_load =
        (\<lambda>a p. if a = timeoutKey then Inl (Error ''fetch failed'')
                else if (a = demoMarket \<and> p = OPENBOOK_PROGRAM_ID)
                        \<or> (a = serumMarket \<and> p = SERUM_PROGRAM_ID)
                then Inr (demo_market bidLevels askLevels)
                else if a = brokenMarket \<and> p = OPENBOOK_PROGRAM_ID
                then Inl (Error ''Invalid market'')
                else Inl (Error ''Address not owned by program'')),
      JSON_parse =
        (\<lambda>t. if t = ''{}'' then JsonData None None
              else if t = ''null'' then JsonNull
              else SyntaxError),
      JSON_stringify = (\<lambda>m sy. ''{}''),
      writable = (\<lambda>f. True)\<rparr>"

section \<open>Facts used by several proofs\<close>

lemmas demo_keys = demoMarket_def serumMarket_def brokenMarket_def timeoutKey_def
  SOL_MINT_def USDC_MINT_def SYSTEM_PROGRAM_def NATIVE_LOADER_def TOKEN_PROGRAM_def
  absentKey_def OPENBOOK_PROGRAM_ID_def SERUM_PROGRAM_ID_def

lemma demo_validKey: "validKey (demo_env bl al) a \<longleftrightarrow> 32 \<le> length a \<and> length a \<le> 44"
  by (simp add: demo_env_def)

lemma demo_load:
  "loadOpenBookMarket (demo_env bl al) demoMarket False = Inr (demo_market bl al)"
  by (simp add: loadOpenBookMarket_def createPublicKey_def demo_env_def demo_keys)

lemma demo_load_broken:
  "loadOpenBookMarket (demo_env bl al) brokenMarket False =
     Inl (Error ''Failed to load OpenBook market: Invalid market'')"
  by (simp add: loadOpenBookMarket_def createPublicKey_def demo_env_def demo_keys
        loadOpenBookMarket_catch_def)

lemma demo_book:
  "getRealOrderBook (demo_env bl al) demoMarket d False =
     Inr \<lparr>bids = map (\<lambda>b. \<lparr>price = fst b, lsize = snd b, side = Bid\<rparr>) (take 20 bl),
          asks = map (\<lambda>a. \<lparr>price = fst a, lsize = snd a, side = Ask\<rparr>) (take 20 al)\<rparr>"
  by (simp add: getRealOrderBook_def demo_load demo_market_def)

text \<open>The requested depth has no effect on what \<open>getRealOrderBook\<close> returns.\<close>

lemma getRealOrderBook_depth_irrelevant:
  "getRealOrderBook E a d u = getRealOrderBook E a d' u"
  by (simp add: getRealOrderBook_def)

lemma getRealOrderBook_Inr:
  assumes "getRealOrderBook E a d u = Inr book"
  obtains m bq aq where
    "loadOpenBookMarket E a u = Inr m" "loadBids m = Inr bq" "loadAsks m = Inr aq"
    "bids book = map (\<lambda>b. \<lparr>price = fst b, lsize = snd b, side = Bid\<rparr>) (getL2 bq 20)"
    "asks book = map (\<lambda>a. \<lparr>price = fst a, lsize = snd a, side = Ask\<rparr>) (getL2 aq 20)"
  using assms by (auto simp: getRealOrderBook_def Let_def split: sum.splits)

text \<open>The try block of \<open>getTokenMetadata\<close>, branch by branch.\<close>

lemma getTokenMetadata_try_cases:
  "getTokenMetadata_try E s a =
     (if \<not> validKey E a then (Inl (Error ''Invalid public key format''), s)
      else case knownSymbol s a of
             Some c \<Rightarrow> (Inr \<lparr>symbol = c, name = c, decimals = 6\<rparr>, s)
           | None \<Rightarrow>
               (case getParsedAccountInfo E a of
                  Inr (Some (ParsedMint d)) \<Rightarrow>
                    (Inr \<lparr>symbol = take 8 a, name = ''Unknown Token'', decimals = d\<rparr>,
                     s\<lparr>mint_lookups := mint_lookups s @ [a]\<rparr>)
                | Inr (Some RawData) \<Rightarrow>
                    (Inl (Error ''TypeError''), s\<lparr>mint_lookups := mint_lookups s @ [a]\<rparr>)
                | Inr None \<Rightarrow>
                    (Inl (Error ''Token account not found''),
                     s\<lparr>mint_lookups := mint_lookups s @ [a]\<rparr>)
                | Inl e \<Rightarrow> (Inl e, s\<lparr>mint_lookups := mint_lookups s @ [a]\<rparr>)))"
  by (simp add: getTokenMetadata_try_def createPublicKey_def Let_def
           split: option.splits sum.splits ParsedAccountData.splits)

text \<open>\<open>getTokenMetadata\<close> changes nothing of the state but the log of mint lookups.\<close>

lemma getTokenMetadata_state:
  assumes "getTokenMetadata E s a = (r, s1)"
  shows "KNOWN_MARKETS s1 = KNOWN_MARKETS s \<and> KNOWN_TOKEN_SYMBOLS s1 = KNOWN_TOKEN_SYMBOLS s
         \<and> files s1 = files s \<and> file_writes s1 = file_writes s"
  using assms
  by (auto simp: getTokenMetadata_def getTokenMetadata_try_cases
        split: option.splits sum.splits ParsedAccountData.splits if_splits)

lemma getTokenMetadata_Inr:
  "\<exists>md s1. getTokenMetadata E s a = (Inr md, s1)"
  by (auto simp: getTokenMetadata_def split: prod.splits sum.splits)

text \<open>\<open>main\<close> once the help, version and update commands are out of the way.\<close>

lemma main_with_address:
  assumes "args = a # rest" and "a \<noteq> []"
    and "''--help'' \<notin> set args" and "''-h'' \<notin> set args"
    and "''--version'' \<notin> set args" and "''-v'' \<notin> set args"
    and "''--update'' \<notin> set args"
  shows "main E s args =
           (case main_detect E args a (''--serum'' \<in> set args \<or> ''-s'' \<in> set args) of
              Stop out \<Rightarrow> (out, s)
            | Go u \<Rightarrow> main_run E s args a u)"
  using assms by (auto simp: main_def Let_def)

lemma main_detect_account:
  assumes "validKey E a" and "''--list'' \<notin> set args" and "''-l'' \<notin> set args"
  shows "main_detect E args a flag =
           (case getAccountInfo E a of
              Inl e \<Rightarrow> main_detect_catch e flag
            | Inr None \<Rightarrow> Stop MarketAccountNotFound
            | Inr (Some acct) \<Rightarrow>
                if owner acct = SERUM_PROGRAM_ID then Go True
                else if owner acct = OPENBOOK_PROGRAM_ID then Go False
                else Stop NotAValidMarket)"
  using assms by (simp add: main_detect_def createPublicKey_def split: sum.splits option.splits)

lemma addMarket_load_failure:
  assumes "loadOpenBookMarket E a u = Inl e"
  shows "addMarketToKnownMarkets E s a u = (Inl e, s)"
  using assms by (simp add: addMarketToKnownMarkets_def)

lemma main_add_load_failure:
  assumes "loadOpenBookMarket E a u = Inl e"
  shows "main_add E s a u =
           (if e = Error ''Invalid public key format'' then InvalidPublicKeyFormat
            else AddFailed e, s)"
  using assms by (simp add: main_add_def addMarket_load_failure)

text \<open>Loading the store reads a file and writes none.\<close>

lemma loadKnownMarketsFromFile_keeps:
  assumes "loadKnownMarketsFromFile E s u = Inr s1"
  shows "files s1 = files s \<and> file_writes s1 = file_writes s
         \<and> mint_lookups s1 = mint_lookups s"
  using assms
  by (auto simp: loadKnownMarketsFromFile_def loadKnownMarketsFromFile_try_def emptyStore_def
        split: sum.splits option.splits file_entry.splits json.splits)

text \<open>The rounding to a double and the operations on doubles.\<close>

lemma powi_bitlen_lower:
  fixes p :: int assumes "0 < p"
  shows "(2::rat) powi (bitlen p - 1) \<le> of_int p"
proof -
  from bitlen_bounds [OF assms] have "2 ^ nat (bitlen p - 1) \<le> p" by simp
  then have "(of_int (2 ^ nat (bitlen p - 1)) :: rat) \<le> of_int p"
    by (simp only: of_int_le_iff)
  moreover have "0 \<le> bitlen p - 1"
    using assms by (simp add: bitlen_alt_def)
  ultimately show ?thesis by (simp add: power_int_def)
qed

lemma powi_bitlen_upper:
  fixes p :: int assumes "0 < p"
  shows "(of_int p :: rat) < 2 powi (bitlen p)"
proof -
  from bitlen_bounds [OF assms] have "p < 2 ^ nat (bitlen p)" by simp
  then have "(of_int p :: rat) < of_int (2 ^ nat (bitlen p))"
    by (simp only: of_int_less_iff)
  moreover have "0 \<le> bitlen p" by (rule bitlen_nonneg)
  ultimately show ?thesis by (simp add: power_int_def)
qed

lemma ilog2_bounds:
  assumes "0 < m"
  shows "2 powi (ilog2 m) \<le> m \<and> m < 2 powi (ilog2 m + 1)"
proof -
  obtain p q where pq: "quotient_of m = (p, q)" by (cases "quotient_of m")
  then have q: "0 < q" by (rule quotient_of_denom_pos)
  from pq have m: "m = of_int p / of_int q" by (rule quotient_of_div)
  with assms q have p: "0 < p" by (simp add: zero_less_divide_iff)
  let ?d = "bitlen p - bitlen q"
  have lo: "(2::rat) powi (?d - 1) \<le> m"
  proof -
    have "(2::rat) powi (?d - 1) = 2 powi (bitlen p - 1) / 2 powi (bitlen q)"
      by (simp add: power_int_diff)
    also have "\<dots> \<le> of_int p / 2 powi (bitlen q)"
      using powi_bitlen_lower [OF p] by (simp add: divide_right_mono)
    also have "\<dots> \<le> of_int p / of_int q"
      using powi_bitlen_upper [OF q] p q by (simp add: frac_le)
    finally show ?thesis by (simp add: m)
  qed
  have hi: "m < (2::rat) powi (?d + 1)"
  proof -
    have "m = of_int p / of_int q" by (rule m)
    also have "\<dots> \<le> of_int p / 2 powi (bitlen q - 1)"
      using powi_bitlen_lower [OF q] p q by (simp add: frac_le)
    also have "\<dots> < 2 powi (bitlen p) / 2 powi (bitlen q - 1)"
      using powi_bitlen_upper [OF p] by (simp add: divide_strict_right_mono)
    also have "\<dots> = 2 powi (?d + 1)"
      by (simp add: power_int_diff power_int_add)
    finally show ?thesis .
  qed
  show ?thesis
    using lo hi by (auto simp: ilog2_def pq Let_def)
qed

lemma powi2_less_imp:
  assumes "(2::rat) powi a < 2 powi b"
  shows "a < b"
proof (rule ccontr)
  assume "\<not> a < b"
  then have "b \<le> a" by simp
  then have "(2::rat) powi b \<le> 2 powi a" by (rule power_int_increasing) simp
  with assms show False by simp
qed

lemma ilog2_unique:
  assumes "0 < m" and "2 powi e \<le> m" and "m < 2 powi (e + 1)"
  shows "ilog2 m = e"
proof -
  from ilog2_bounds [OF assms(1)] have
    a: "2 powi (ilog2 m) \<le> m" and b: "m < 2 powi (ilog2 m + 1)" by simp_all
  have "(2::rat) powi (ilog2 m) < 2 powi (e + 1)" using a assms(3) by simp
  then have 1: "ilog2 m < e + 1" by (rule powi2_less_imp)
  have "(2::rat) powi e < 2 powi (ilog2 m + 1)" using b assms(2) by simp
  then have 2: "e < ilog2 m + 1" by (rule powi2_less_imp)
  from 1 2 show ?thesis by simp
qed


lemma floor_rat_numeral:
  "\<lfloor>(numeral a :: rat) / numeral b\<rfloor> = numeral a div numeral b"
  using floor_divide_of_int_eq [of "numeral a" "numeral b", where ?'a = rat] by simp

lemma roundTiesToEven_ge_floor: "\<lfloor>t\<rfloor> \<le> roundTiesToEven t"
  by (simp add: roundTiesToEven_def Let_def)

text \<open>Rounding a positive rational whose binary exponent is known.\<close>

lemma round64_pos:
  assumes "0 < r" and "2 powi e \<le> r" and "r < 2 powi (e + 1)"
  shows "round64 r =
           (let q = 2 powi (max e (- 1022) - 52); n = roundTiesToEven (r / q)
            in if n = 0 then Num 0
               else if 2 powi 1024 \<le> of_int n * q then PosInfinity
               else Num (of_int n * q))"
  using assms by (simp add: round64_def ilog2_unique [OF assms] Let_def)

lemma round64_neg:
  assumes "r < 0" and "2 powi e \<le> - r" and "- r < 2 powi (e + 1)"
  shows "round64 r =
           (let q = 2 powi (max e (- 1022) - 52); n = roundTiesToEven (- r / q)
            in if n = 0 then NegZero
               else if 2 powi 1024 \<le> of_int n * q then NegInfinity
               else Num (- (of_int n * q)))"
proof -
  have "ilog2 \<bar>r\<bar> = e"
    using assms by (intro ilog2_unique) simp_all
  with assms(1) show ?thesis by (simp add: round64_def Let_def)
qed

text \<open>A double is a whole multiple of the smallest subnormal.\<close>

lemma is_double64_grid:
  assumes "is_double64 r"
  shows "\<exists>k::int. r = of_int k * 2 powi (- 1074)"
proof (cases "r = 0")
  case True
  then show ?thesis by (intro exI [of _ 0]) simp
next
  case False
  define u :: rat where "u = 2 powi (- 1074)"
  define e where "e = max (ilog2 \<bar>r\<bar>) (- 1022)"
  define n where "n = roundTiesToEven (\<bar>r\<bar> / 2 powi (e - 52))"
  have e: "0 \<le> e + 1022" by (simp add: e_def)
  from assms False have r: "\<bar>r\<bar> = of_int n * 2 powi (e - 52)"
    by (auto simp: is_double64_def round64_def Let_def e_def n_def split: if_splits)
  have "e - 52 = (e + 1022) + (- 1074)" by simp
  then have "(2::rat) powi (e - 52) = 2 powi ((e + 1022) + (- 1074))" by (rule arg_cong)
  also have "\<dots> = 2 powi (e + 1022) * u"
    unfolding u_def by (rule power_int_add) simp
  also have "(2::rat) powi (e + 1022) = of_int (2 ^ nat (e + 1022))"
    using e by (simp add: power_int_def)
  finally have a: "\<bar>r\<bar> = of_int (n * 2 ^ nat (e + 1022)) * u"
    using r by simp
  have "\<exists>k::int. r = of_int k * u"
  proof (cases "0 \<le> r")
    case True
    with a show ?thesis by (intro exI [of _ "n * 2 ^ nat (e + 1022)"]) simp
  next
    case False
    with a have "r = of_int (- (n * 2 ^ nat (e + 1022))) * u"
      by simp
    then show ?thesis by blast
  qed
  then show ?thesis unfolding u_def .
qed

text \<open>At or above the smallest subnormal nothing rounds to zero.\<close>

lemma round64_positive:
  assumes "2 powi (- 1074) \<le> m"
  shows "round64 m = PosInfinity \<or> (\<exists>v. 0 < v \<and> round64 m = Num v)"
proof -
  have m: "0 < m"
    using assms by (rule less_le_trans [rotated]) simp
  define e where "e = max (ilog2 m) (- 1022)"
  define q :: rat where "q = 2 powi (e - 52)"
  define n where "n = roundTiesToEven (m / q)"
  have q: "0 < q" by (simp add: q_def)
  have "q \<le> m"
  proof (cases "ilog2 m \<le> - 1022")
    case True
    then have "q = 2 powi (- 1074)" by (simp add: q_def e_def max_def)
    with assms show ?thesis by simp
  next
    case False
    then have "e = ilog2 m" by (simp add: e_def)
    then have "q \<le> 2 powi (ilog2 m)"
      unfolding q_def by (intro power_int_increasing) simp_all
    also have "\<dots> \<le> m" using ilog2_bounds [OF m] by simp
    finally show ?thesis .
  qed
  with q have "1 \<le> m / q" by simp
  then have "1 \<le> \<lfloor>m / q\<rfloor>" by (simp add: le_floor_iff)
  with roundTiesToEven_ge_floor [of "m / q"] have n: "1 \<le> n"
    unfolding n_def by linarith
  with q have "0 < of_int n * q" by simp
  with n m show ?thesis
    by (simp add: round64_def Let_def e_def [symmetric] q_def [symmetric] n_def [symmetric])
qed

lemma round64_0: "round64 0 = Num 0"
  by (simp add: round64_def)

lemma fsub_Num: "fsub (Num x) (Num y) = round64 (x - y)"
  by (cases "y = 0"; cases "x = 0") (simp_all add: fsub_def fadd_def round64_0)

text \<open>The difference of two doubles, the first the larger, is not zero and not NaN.\<close>

lemma fsub_truthy:
  assumes "is_double64 x" and "is_double64 y" and "y < x"
  shows "truthy (Some (fsub (Num x) (Num y)))"
proof -
  from is_double64_grid [OF assms(1)] obtain k :: int where k: "x = of_int k * 2 powi (- 1074)" ..
  from is_double64_grid [OF assms(2)] obtain l :: int where l: "y = of_int l * 2 powi (- 1074)" ..
  have d: "x - y = of_int (k - l) * 2 powi (- 1074)"
    by (simp add: k l algebra_simps)
  have "0 < x - y" using assms(3) by simp
  then have "0 < (of_int (k - l) :: rat)"
    unfolding d by (simp add: zero_less_mult_iff)
  then have "1 \<le> k - l" by simp
  then have "(1::rat) \<le> of_int (k - l)" by (simp only: of_int_1_le_iff)
  then have "1 * 2 powi (- 1074) \<le> (of_int (k - l) :: rat) * 2 powi (- 1074)"
    by (intro mult_right_mono) simp_all
  then have "2 powi (- 1074) \<le> x - y" by (simp add: d)
  from round64_positive [OF this] show ?thesis
    by (auto simp: truthy_def fsub_Num)
qed

section \<open>The order book\<close>

text \<open>
  Claim C1 says that \<open>getRealOrderBook\<close> cuts each side down to the requested depth, so
  that depth 1 gives at most one level per side. The source takes the depth as a parameter
  and asks both queues for 20 levels whatever it is: on the market of the specification's
  scenario, whose queues hold two levels each, a call with depth 1 returns both levels of
  each side.
\<close>

theorem getRealOrderBook_depth_1_two_levels:
  "getRealOrderBook (demo_env [(6/5, 50), (119/100, 30)] [(121/100, 40), (61/50, 10)])
     demoMarket 1 False =
   Inr \<lparr>bids = [\<lparr>price = 6/5, lsize = 50, side = Bid\<rparr>,
                 \<lparr>price = 119/100, lsize = 30, side = Bid\<rparr>],
        asks = [\<lparr>price = 121/100, lsize = 40, side = Ask\<rparr>,
                 \<lparr>price = 61/50, lsize = 10, side = Ask\<rparr>]\<rparr>"
  by (simp add: demo_book)

text \<open>
  Claim C2 says that the bids come out in descending and the asks in ascending price order
  for every sequence the decoder produces, unsorted ones included. The source does not
  sort: with a decoder that gives the bids as 1, 2 and the asks as 4, 3 the book has them
  in that order.
\<close>

theorem getRealOrderBook_unsorted_counterexample:
  "getRealOrderBook (demo_env [(1, 5), (2, 5)] [(4, 5), (3, 5)]) demoMarket 20 False =
     Inr \<lparr>bids = [\<lparr>price = 1, lsize = 5, side = Bid\<rparr>, \<lparr>price = 2, lsize = 5, side = Bid\<rparr>],
          asks = [\<lparr>price = 4, lsize = 5, side = Ask\<rparr>, \<lparr>price = 3, lsize = 5, side = Ask\<rparr>]\<rparr>
   \<and> \<not> bidsDescending
         \<lparr>bids = [\<lparr>price = 1, lsize = 5, side = Bid\<rparr>, \<lparr>price = 2, lsize = 5, side = Bid\<rparr>],
          asks = [\<lparr>price = 4, lsize = 5, side = Ask\<rparr>, \<lparr>price = 3, lsize = 5, side = Ask\<rparr>]\<rparr>
   \<and> \<not> asksAscending
         \<lparr>bids = [\<lparr>price = 1, lsize = 5, side = Bid\<rparr>, \<lparr>price = 2, lsize = 5, side = Bid\<rparr>],
          asks = [\<lparr>price = 4, lsize = 5, side = Ask\<rparr>, \<lparr>price = 3, lsize = 5, side = Ask\<rparr>]\<rparr>"
  by (simp add: demo_book bidsDescending_def asksAscending_def)

text \<open>
  Claim C2 as amended: a book that \<open>getRealOrderBook\<close> returns holds, on each side, the
  (price, size) pairs of the decoder's \<^verbatim>\<open>getL2(20)\<close> in the decoder's order. So the bids
  are in descending price order exactly when the decoder gave them so, and the asks in
  ascending order exactly when the decoder gave them so.
\<close>

theorem getRealOrderBook_keeps_decoder_order:
  assumes "getRealOrderBook E a d u = Inr book"
  shows "\<exists>m bq aq. loadOpenBookMarket E a u = Inr m
           \<and> loadBids m = Inr bq \<and> loadAsks m = Inr aq
           \<and> map (\<lambda>l. (price l, lsize l)) (bids book) = getL2 bq 20
           \<and> map (\<lambda>l. (price l, lsize l)) (asks book) = getL2 aq 20
           \<and> (bidsDescending book \<longleftrightarrow> sorted_wrt (\<lambda>x y. fst y \<le> fst x) (getL2 bq 20))
           \<and> (asksAscending book \<longleftrightarrow> sorted_wrt (\<lambda>x y. fst x \<le> fst y) (getL2 aq 20))"
proof -
  from assms obtain m bq aq where
    m: "loadOpenBookMarket E a u = Inr m" "loadBids m = Inr bq" "loadAsks m = Inr aq" and
    b: "bids book = map (\<lambda>b. \<lparr>price = fst b, lsize = snd b, side = Bid\<rparr>) (getL2 bq 20)" and
    k: "asks book = map (\<lambda>a. \<lparr>price = fst a, lsize = snd a, side = Ask\<rparr>) (getL2 aq 20)"
    by (rule getRealOrderBook_Inr)
  have 1: "map (\<lambda>l. (price l, lsize l)) (bids book) = getL2 bq 20"
    by (simp add: b comp_def)
  have 2: "map (\<lambda>l. (price l, lsize l)) (asks book) = getL2 aq 20"
    by (simp add: k comp_def)
  have 3: "bidsDescending book \<longleftrightarrow> sorted_wrt (\<lambda>x y. fst y \<le> fst x) (getL2 bq 20)"
    by (simp add: bidsDescending_def b sorted_wrt_map)
  have 4: "asksAscending book \<longleftrightarrow> sorted_wrt (\<lambda>x y. fst x \<le> fst y) (getL2 aq 20)"
    by (simp add: asksAscending_def k sorted_wrt_map)
  from m 1 2 3 4 show ?thesis by blast
qed

text \<open>
  The amended claim on the scenario's market, whose decoder gives sorted levels: the book
  read at depth 15 is sorted on both sides.
\<close>

theorem getRealOrderBook_keeps_decoder_order_witness:
  "getRealOrderBook (demo_env [(6/5, 50), (119/100, 30)] [(121/100, 40), (61/50, 10)])
     demoMarket 15 False =
     Inr \<lparr>bids = [\<lparr>price = 6/5, lsize = 50, side = Bid\<rparr>,
                   \<lparr>price = 119/100, lsize = 30, side = Bid\<rparr>],
          asks = [\<lparr>price = 121/100, lsize = 40, side = Ask\<rparr>,
                   \<lparr>price = 61/50, lsize = 10, side = Ask\<rparr>]\<rparr>
   \<and> bidsDescending
         \<lparr>bids = [\<lparr>price = 6/5, lsize = 50, side = Bid\<rparr>,
                   \<lparr>price = 119/100, lsize = 30, side = Bid\<rparr>],
          asks = [\<lparr>price = 121/100, lsize = 40, side = Ask\<rparr>,
                   \<lparr>price = 61/50, lsize = 10, side = Ask\<rparr>]\<rparr>
   \<and> asksAscending
         \<lparr>bids = [\<lparr>price = 6/5, lsize = 50, side = Bid\<rparr>,
                   \<lparr>price = 119/100, lsize = 30, side = Bid\<rparr>],
          asks = [\<lparr>price = 121/100, lsize = 40, side = Ask\<rparr>,
                   \<lparr>price = 61/50, lsize = 10, side = Ask\<rparr>]\<rparr>"
proof -
  let ?E = "demo_env [(6/5, 50), (119/100, 30)] [(121/100, 40), (61/50, 10)]"
  let ?B = "\<lparr>bids = [\<lparr>price = 6/5, lsize = 50, side = Bid\<rparr>,
                      \<lparr>price = 119/100, lsize = 30, side = Bid\<rparr>],
             asks = [\<lparr>price = 121/100, lsize = 40, side = Ask\<rparr>,
                      \<lparr>price = 61/50, lsize = 10, side = Ask\<rparr>]\<rparr>"
  have h: "getRealOrderBook ?E demoMarket 15 False = Inr ?B"
    by (simp add: demo_book)
  from getRealOrderBook_keeps_decoder_order [OF h] obtain m bq aq where
    m: "loadOpenBookMarket ?E demoMarket False = Inr m"
       "loadBids m = Inr bq" "loadAsks m = Inr aq" and
    b: "bidsDescending ?B \<longleftrightarrow> sorted_wrt (\<lambda>x y. fst y \<le> fst x) (getL2 bq 20)" and
    k: "asksAscending ?B \<longleftrightarrow> sorted_wrt (\<lambda>x y. fst x \<le> fst y) (getL2 aq 20)"
    by blast
  from m have "getL2 bq 20 = [(6/5, 50), (119/100, 30)]"
    and "getL2 aq 20 = [(121/100, 40), (61/50, 10)]"
    by (auto simp: demo_load demo_market_def)
  with b k have "bidsDescending ?B" and "asksAscending ?B" by simp_all
  with h show ?thesis by simp
qed

section \<open>Token metadata\<close>

text \<open>
  Claim C3: for every token identifier, every state and every answer of the network,
  \<open>getTokenMetadata\<close> returns a metadata value and does not throw. When the identifier
  is not a valid key, or when no symbol is known and the lookup fails in transport, finds
  no account or finds unparsed data, the value has the first 8 characters of the
  identifier as symbol, 6 decimals and the name Unknown Token.
\<close>

theorem getTokenMetadata_total:
  "\<exists>md s1. getTokenMetadata E s a = (Inr md, s1)
     \<and> ((\<not> validKey E a
          \<or> (knownSymbol s a = None \<and> (\<exists>e. getParsedAccountInfo E a = Inl e))
          \<or> (knownSymbol s a = None \<and> getParsedAccountInfo E a = Inr None)
          \<or> (knownSymbol s a = None \<and> getParsedAccountInfo E a = Inr (Some RawData)))
         \<longrightarrow> md = \<lparr>symbol = take 8 a, name = ''Unknown Token'', decimals = 6\<rparr>)"
  by (auto simp: getTokenMetadata_def getTokenMetadata_try_cases
           split: option.splits sum.splits ParsedAccountData.splits)

text \<open>
  Claim C3 on a malformed identifier, on a key whose lookup fails in transport, on a key
  without account and on an account with unparsed data.
\<close>

theorem getTokenMetadata_total_witness:
  "(\<exists>s1. getTokenMetadata (demo_env [] []) initial_state ''not-a-key'' =
           (Inr \<lparr>symbol = ''not-a-ke'', name = ''Unknown Token'', decimals = 6\<rparr>, s1))
   \<and> (\<exists>s1. getTokenMetadata (demo_env [] []) initial_state timeoutKey =
           (Inr \<lparr>symbol = ''3ySaxSsp'', name = ''Unknown Token'', decimals = 6\<rparr>, s1))
   \<and> (\<exists>s1. getTokenMetadata (demo_env [] []) initial_state absentKey =
           (Inr \<lparr>symbol = ''HjFijcGW'', name = ''Unknown Token'', decimals = 6\<rparr>, s1))
   \<and> (\<exists>s1. getTokenMetadata (demo_env [] []) initial_state SYSTEM_PROGRAM =
           (Inr \<lparr>symbol = ''11111111'', name = ''Unknown Token'', decimals = 6\<rparr>, s1))"
proof -
  have n: "knownSymbol initial_state a = None" for a
    by (simp add: knownSymbol_def initial_state_def)
  have 1: "\<not> validKey (demo_env [] []) ''not-a-key''"
    by (simp add: demo_validKey)
  have 2: "getParsedAccountInfo (demo_env [] []) timeoutKey = Inl (Error ''fetch failed'')"
    by (simp add: demo_env_def demo_keys)
  have 3: "getParsedAccountInfo (demo_env [] []) absentKey = Inr None"
    by (simp add: demo_env_def demo_keys)
  have 4: "getParsedAccountInfo (demo_env [] []) SYSTEM_PROGRAM = Inr (Some RawData)"
    by (simp add: demo_env_def demo_keys)
  from getTokenMetadata_total [of "demo_env [] []" initial_state "''not-a-key''"] 1
  have a: "\<exists>s1. getTokenMetadata (demo_env [] []) initial_state ''not-a-key'' =
             (Inr \<lparr>symbol = ''not-a-ke'', name = ''Unknown Token'', decimals = 6\<rparr>, s1)"
    by auto
  from getTokenMetadata_total [of "demo_env [] []" initial_state timeoutKey] n 2
  have b: "\<exists>s1. getTokenMetadata (demo_env [] []) initial_state timeoutKey =
             (Inr \<lparr>symbol = ''3ySaxSsp'', name = ''Unknown Token'', decimals = 6\<rparr>, s1)"
    by (auto simp: timeoutKey_def)
  from getTokenMetadata_total [of "demo_env [] []" initial_state absentKey] n 3
  have c: "\<exists>s1. getTokenMetadata (demo_env [] []) initial_state absentKey =
             (Inr \<lparr>symbol = ''HjFijcGW'', name = ''Unknown Token'', decimals = 6\<rparr>, s1)"
    by (auto simp: absentKey_def)
  from getTokenMetadata_total [of "demo_env [] []" initial_state SYSTEM_PROGRAM] n 4
  have d: "\<exists>s1. getTokenMetadata (demo_env [] []) initial_state SYSTEM_PROGRAM =
             (Inr \<lparr>symbol = ''11111111'', name = ''Unknown Token'', decimals = 6\<rparr>, s1)"
    by (auto simp: SYSTEM_PROGRAM_def)
  from a b c d show ?thesis by blast
qed

text \<open>
  Claim C4 says that every identifier present in the symbol mapping gets its cached symbol
  with 6 decimals and no mint lookup. Two entries of a store show otherwise. The key
  \<open>USDC-mint\<close> is no valid address: its entry is not read, and the symbol is the first
  8 characters of the key. The entry of the SOL mint is the empty string, which counts as
  no entry: the mint is looked up, and its decimals are 9.
\<close>

theorem getTokenMetadata_cached_counterexample:
  "getTokenMetadata (demo_env [] [])
     (initial_state\<lparr>KNOWN_TOKEN_SYMBOLS := [''USDC-mint'' \<mapsto> ''USDC'', SOL_MINT \<mapsto> '''']\<rparr>)
     ''USDC-mint'' =
   (Inr \<lparr>symbol = ''USDC-min'', name = ''Unknown Token'', decimals = 6\<rparr>,
    initial_state\<lparr>KNOWN_TOKEN_SYMBOLS := [''USDC-mint'' \<mapsto> ''USDC'', SOL_MINT \<mapsto> '''']\<rparr>)
   \<and> getTokenMetadata (demo_env [] [])
     (initial_state\<lparr>KNOWN_TOKEN_SYMBOLS := [''USDC-mint'' \<mapsto> ''USDC'', SOL_MINT \<mapsto> '''']\<rparr>)
     SOL_MINT =
   (Inr \<lparr>symbol = ''So111111'', name = ''Unknown Token'', decimals = 9\<rparr>,
    initial_state\<lparr>KNOWN_TOKEN_SYMBOLS := [''USDC-mint'' \<mapsto> ''USDC'', SOL_MINT \<mapsto> ''''],
                  mint_lookups := [SOL_MINT]\<rparr>)"
  by (simp add: getTokenMetadata_def getTokenMetadata_try_cases knownSymbol_def
        demo_env_def initial_state_def SOL_MINT_def)

text \<open>
  Claim C4 as amended: for every identifier that is a valid address and whose entry in the
  symbol mapping is a non-empty string, \<open>getTokenMetadata\<close> returns that symbol with
  6 decimals and leaves the state as it was, the log of mint lookups included: no lookup is
  issued.
\<close>

theorem getTokenMetadata_cached:
  assumes "validKey E a" and "KNOWN_TOKEN_SYMBOLS s a = Some c" and "c \<noteq> []"
  shows "getTokenMetadata E s a = (Inr \<lparr>symbol = c, name = c, decimals = 6\<rparr>, s)"
  using assms by (simp add: getTokenMetadata_def getTokenMetadata_try_cases knownSymbol_def)

text \<open>The amended claim on the USDC mint with the cached symbol USDC.\<close>

theorem getTokenMetadata_cached_witness:
  "getTokenMetadata (demo_env [] [])
     (initial_state\<lparr>KNOWN_TOKEN_SYMBOLS := [USDC_MINT \<mapsto> ''USDC'']\<rparr>) USDC_MINT =
   (Inr \<lparr>symbol = ''USDC'', name = ''USDC'', decimals = 6\<rparr>,
    initial_state\<lparr>KNOWN_TOKEN_SYMBOLS := [USDC_MINT \<mapsto> ''USDC'']\<rparr>)"
proof -
  have 1: "validKey (demo_env [] []) USDC_MINT"
    by (simp add: demo_validKey USDC_MINT_def)
  have 2: "KNOWN_TOKEN_SYMBOLS (initial_state\<lparr>KNOWN_TOKEN_SYMBOLS := [USDC_MINT \<mapsto> ''USDC'']\<rparr>)
             USDC_MINT = Some ''USDC''"
    by simp
  have 3: "''USDC'' \<noteq> []" by simp
  from getTokenMetadata_cached [OF 1 2 3] show ?thesis .
qed

section \<open>Which program a market belongs to\<close>

text \<open>
  Claim C5: when \<open>main\<close> is given an address that is a valid key (and none of the help,
  version, update and list commands), the owner of the account decides by equality with
  the two program identifiers. An account owned by the OpenBook program makes the
  invocation go on for OpenBook, one owned by the Serum program makes it go on for Serum,
  an account of any other owner ends the invocation with the message that the address is
  not a valid market, and an address without account ends it with the different message
  that the account was not found; in both endings the state is untouched.
\<close>

theorem main_identity_resolution:
  assumes "args = a # rest" and "a \<noteq> []" and "validKey E a"
    and "''--help'' \<notin> set args" and "''-h'' \<notin> set args"
    and "''--version'' \<notin> set args" and "''-v'' \<notin> set args"
    and "''--update'' \<notin> set args"
    and "''--list'' \<notin> set args" and "''-l'' \<notin> set args"
  shows "(getAccountInfo E a = Inr (Some acct) \<and> owner acct = OPENBOOK_PROGRAM_ID
            \<longrightarrow> main E s args = main_run E s args a False)
       \<and> (getAccountInfo E a = Inr (Some acct) \<and> owner acct = SERUM_PROGRAM_ID
            \<longrightarrow> main E s args = main_run E s args a True)
       \<and> (getAccountInfo E a = Inr (Some acct) \<and> owner acct \<noteq> OPENBOOK_PROGRAM_ID
            \<and> owner acct \<noteq> SERUM_PROGRAM_ID
            \<longrightarrow> main E s args = (NotAValidMarket, s))
       \<and> (getAccountInfo E a = Inr None \<longrightarrow> main E s args = (MarketAccountNotFound, s))
       \<and> NotAValidMarket \<noteq> MarketAccountNotFound"
  using assms
  by (simp add: main_with_address main_detect_account OPENBOOK_PROGRAM_ID_def
        SERUM_PROGRAM_ID_def)

text \<open>
  Claim C5 on four addresses: an OpenBook market, a Serum market, the system program
  (an account of another owner) and an address without account.
\<close>

theorem main_identity_resolution_witness:
  "main (demo_env [] []) initial_state [demoMarket] =
     main_run (demo_env [] []) initial_state [demoMarket] demoMarket False
   \<and> main (demo_env [] []) initial_state [serumMarket] =
     main_run (demo_env [] []) initial_state [serumMarket] serumMarket True
   \<and> main (demo_env [] []) initial_state [SYSTEM_PROGRAM] = (NotAValidMarket, initial_state)
   \<and> main (demo_env [] []) initial_state [absentKey] = (MarketAccountNotFound, initial_state)"
proof -
  have a: "main (demo_env [] []) initial_state [demoMarket] =
             main_run (demo_env [] []) initial_state [demoMarket] demoMarket False"
    using main_identity_resolution [where args = "[demoMarket]" and a = demoMarket
        and rest = "[]" and E = "demo_env [] []" and s = initial_state
        and acct = "\<lparr>owner = OPENBOOK_PROGRAM_ID\<rparr>"]
    by (simp add: demo_validKey) (simp add: demo_env_def demo_keys)
  have b: "main (demo_env [] []) initial_state [serumMarket] =
             main_run (demo_env [] []) initial_state [serumMarket] serumMarket True"
    using main_identity_resolution [where args = "[serumMarket]" and a = serumMarket
        and rest = "[]" and E = "demo_env [] []" and s = initial_state
        and acct = "\<lparr>owner = SERUM_PROGRAM_ID\<rparr>"]
    by (simp add: demo_validKey) (simp add: demo_env_def demo_keys)
  have c: "main (demo_env [] []) initial_state [SYSTEM_PROGRAM] =
             (NotAValidMarket, initial_state)"
    using main_identity_resolution [where args = "[SYSTEM_PROGRAM]" and a = SYSTEM_PROGRAM
        and rest = "[]" and E = "demo_env [] []" and s = initial_state
        and acct = "\<lparr>owner = NATIVE_LOADER\<rparr>"]
    by (simp add: demo_validKey) (simp add: demo_env_def demo_keys)
  have d: "main (demo_env [] []) initial_state [absentKey] =
             (MarketAccountNotFound, initial_state)"
    using main_identity_resolution [where args = "[absentKey]" and a = absentKey
        and rest = "[]" and E = "demo_env [] []" and s = initial_state]
    by (simp add: demo_validKey) (simp add: demo_env_def demo_keys)
  from a b c d show ?thesis by blast
qed

text \<open>
  Claim C6 says that with \<^verbatim>\<open>--serum\<close> and a market address the program used is Serum
  and the owner of the account is not consulted. The source consults it all the same:
  adding an OpenBook market with \<^verbatim>\<open>--serum\<close> adds it for OpenBook and writes the
  OpenBook store file.
\<close>

theorem main_serum_flag_counterexample:
  "fst (main (demo_env [] []) initial_state [demoMarket, ''--serum'', ''--add''])
     = MarketAdded False
   \<and> file_writes (snd (main (demo_env [] []) initial_state [demoMarket, ''--serum'', ''--add'']))
     = [''known_openbook_markets.json'']"
  by code_simp

text \<open>
  Claim C6 as amended. Take an invocation with \<^verbatim>\<open>--serum\<close> or \<^verbatim>\<open>-s\<close> and a market
  address, and none of the help, version and update commands. With the list command the
  owner is not looked at and the invocation goes on for Serum. Without it the owner of
  the account is consulted and decides: an account of the OpenBook program makes the
  invocation go on for OpenBook, one of the Serum program for Serum; in
  \<^verbatim>\<open>src/index.ts\<close> an address that is no valid key, an account of any other owner and
  an address without account end the invocation, and a fetch of the account that throws
  makes it go on for Serum, the flag, unless the error is the invalid-key error, which
  ends it. So there the flag decides exactly under the list command and after such a throw.
  In the second copy of the entry point the detection block ends no invocation, and the
  program it leaves is Serum, the flag, in every case but that of a valid key whose
  account the OpenBook program owns.
\<close>

theorem main_serum_flag_detection:
  assumes "args = a # rest" and "a \<noteq> []"
    and "''--serum'' \<in> set args \<or> ''-s'' \<in> set args"
    and "''--help'' \<notin> set args" and "''-h'' \<notin> set args"
    and "''--version'' \<notin> set args" and "''-v'' \<notin> set args"
    and "''--update'' \<notin> set args"
  shows "(''--list'' \<in> set args \<or> ''-l'' \<in> set args
            \<longrightarrow> main E s args = main_run E s args a True)
       \<and> (''--list'' \<notin> set args \<and> ''-l'' \<notin> set args \<and> validKey E a
            \<and> getAccountInfo E a = Inr (Some acct) \<and> owner acct = OPENBOOK_PROGRAM_ID
            \<longrightarrow> main E s args = main_run E s args a False)
       \<and> (''--list'' \<notin> set args \<and> ''-l'' \<notin> set args \<and> validKey E a
            \<and> getAccountInfo E a = Inr (Some acct) \<and> owner acct = SERUM_PROGRAM_ID
            \<longrightarrow> main E s args = main_run E s args a True)
       \<and> (''--list'' \<notin> set args \<and> ''-l'' \<notin> set args \<and> validKey E a
            \<and> getAccountInfo E a = Inr (Some acct) \<and> owner acct \<noteq> OPENBOOK_PROGRAM_ID
            \<and> owner acct \<noteq> SERUM_PROGRAM_ID
            \<longrightarrow> main E s args = (NotAValidMarket, s))
       \<and> (''--list'' \<notin> set args \<and> ''-l'' \<notin> set args \<and> validKey E a
            \<and> getAccountInfo E a = Inr None
            \<longrightarrow> main E s args = (MarketAccountNotFound, s))
       \<and> (''--list'' \<notin> set args \<and> ''-l'' \<notin> set args \<and> validKey E a
            \<and> getAccountInfo E a = Inl e \<and> e \<noteq> Error ''Invalid public key format''
            \<longrightarrow> main E s args = main_run E s args a True)
       \<and> (''--list'' \<notin> set args \<and> ''-l'' \<notin> set args \<and> validKey E a
            \<and> getAccountInfo E a = Inl (Error ''Invalid public key format'')
            \<longrightarrow> main E s args = (InvalidPublicKeyFormat, s))
       \<and> (''--list'' \<notin> set args \<and> ''-l'' \<notin> set args \<and> \<not> validKey E a
            \<longrightarrow> main E s args = (InvalidPublicKeyFormat, s))
       \<and> (part_001_detect E args True \<longleftrightarrow>
            \<not> (''--list'' \<notin> set args \<and> ''-l'' \<notin> set args \<and> validKey E a
               \<and> (\<exists>acct'. getAccountInfo E a = Inr (Some acct')
                           \<and> owner acct' = OPENBOOK_PROGRAM_ID)))"
proof -
  have m: "main E s args =
           (case main_detect E args a True of
              Stop out \<Rightarrow> (out, s)
            | Go u \<Rightarrow> main_run E s args a u)"
    using assms by (auto simp: main_with_address)
  have d: "''--list'' \<notin> set args \<and> ''-l'' \<notin> set args \<and> validKey E a \<Longrightarrow>
           main_detect E args a True =
           (case getAccountInfo E a of
              Inl e \<Rightarrow> main_detect_catch e True
            | Inr None \<Rightarrow> Stop MarketAccountNotFound
            | Inr (Some acct) \<Rightarrow>
                if owner acct = SERUM_PROGRAM_ID then Go True
                else if owner acct = OPENBOOK_PROGRAM_ID then Go False
                else Stop NotAValidMarket)"
    by (simp add: main_detect_account)
  have 1: "''--list'' \<in> set args \<or> ''-l'' \<in> set args
            \<longrightarrow> main E s args = main_run E s args a True"
    by (auto simp: m main_detect_def)
  have 2: "''--list'' \<notin> set args \<and> ''-l'' \<notin> set args \<and> validKey E a
            \<and> getAccountInfo E a = Inr (Some acct) \<and> owner acct = OPENBOOK_PROGRAM_ID
            \<longrightarrow> main E s args = main_run E s args a False"
    by (simp add: m d OPENBOOK_PROGRAM_ID_def SERUM_PROGRAM_ID_def)
  have 3: "''--list'' \<notin> set args \<and> ''-l'' \<notin> set args \<and> validKey E a
            \<and> getAccountInfo E a = Inr (Some acct) \<and> owner acct = SERUM_PROGRAM_ID
            \<longrightarrow> main E s args = main_run E s args a True"
    by (simp add: m d)
  have 4: "''--list'' \<notin> set args \<and> ''-l'' \<notin> set args \<and> validKey E a
            \<and> getAccountInfo E a = Inr (Some acct) \<and> owner acct \<noteq> OPENBOOK_PROGRAM_ID
            \<and> owner acct \<noteq> SERUM_PROGRAM_ID
            \<longrightarrow> main E s args = (NotAValidMarket, s)"
    by (simp add: m d)
  have 5: "''--list'' \<notin> set args \<and> ''-l'' \<notin> set args \<and> validKey E a
            \<and> getAccountInfo E a = Inr None
            \<longrightarrow> main E s args = (MarketAccountNotFound, s)"
    by (simp add: m d)
  have 6: "''--list'' \<notin> set args \<and> ''-l'' \<notin> set args \<and> validKey E a
            \<and> getAccountInfo E a = Inl e \<and> e \<noteq> Error ''Invalid public key format''
            \<longrightarrow> main E s args = main_run E s args a True"
    by (simp add: m d main_detect_catch_def)
  have 7: "''--list'' \<notin> set args \<and> ''-l'' \<notin> set args \<and> validKey E a
            \<and> getAccountInfo E a = Inl (Error ''Invalid public key format'')
            \<longrightarrow> main E s args = (InvalidPublicKeyFormat, s)"
    by (simp add: m d main_detect_catch_def)
  have 8: "''--list'' \<notin> set args \<and> ''-l'' \<notin> set args \<and> \<not> validKey E a
            \<longrightarrow> main E s args = (InvalidPublicKeyFormat, s)"
    by (simp add: m main_detect_def createPublicKey_def main_detect_catch_def)
  have 9: "part_001_detect E args True \<longleftrightarrow>
            \<not> (''--list'' \<notin> set args \<and> ''-l'' \<notin> set args \<and> validKey E a
               \<and> (\<exists>acct'. getAccountInfo E a = Inr (Some acct')
                           \<and> owner acct' = OPENBOOK_PROGRAM_ID))"
    using assms(1,2)
    by (auto simp: part_001_detect_def OPENBOOK_PROGRAM_ID_def SERUM_PROGRAM_ID_def
          split: sum.splits option.splits)
  from 1 2 3 4 5 6 7 8 9 show ?thesis by blast
qed

text \<open>
  The amended claim with \<^verbatim>\<open>--serum\<close>: with the list command; on an OpenBook market, a
  Serum market, the system program, an address without account, a key whose fetch fails
  and a text that is no key; in a world where every fetch throws the invalid-key error;
  and, for the second copy, on the OpenBook market and on the system program.
\<close>

theorem main_serum_flag_detection_witness:
  "main (demo_env [] []) initial_state [demoMarket, ''--list'', ''--serum''] =
     main_run (demo_env [] []) initial_state [demoMarket, ''--list'', ''--serum''] demoMarket True
   \<and> main (demo_env [] []) initial_state [demoMarket, ''--serum''] =
     main_run (demo_env [] []) initial_state [demoMarket, ''--serum''] demoMarket False
   \<and> main (demo_env [] []) initial_state [serumMarket, ''--serum''] =
     main_run (demo_env [] []) initial_state [serumMarket, ''--serum''] serumMarket True
   \<and> main (demo_env [] []) initial_state [SYSTEM_PROGRAM, ''--serum''] =
     (NotAValidMarket, initial_state)
   \<and> main (demo_env [] []) initial_state [absentKey, ''--serum''] =
     (MarketAccountNotFound, initial_state)
   \<and> main (demo_env [] []) initial_state [timeoutKey, ''--serum''] =
     main_run (demo_env [] []) initial_state [timeoutKey, ''--serum''] timeoutKey True
   \<and> main (demo_env [] []) initial_state [''not-a-key'', ''--serum''] =
     (InvalidPublicKeyFormat, initial_state)
   \<and> main ((demo_env [] [])\<lparr>getAccountInfo := \<lambda>a. Inl (Error ''Invalid public key format'')\<rparr>)
       initial_state [demoMarket, ''--serum''] = (InvalidPublicKeyFormat, initial_state)
   \<and> \<not> part_001_detect (demo_env [] []) [demoMarket, ''--serum''] True
   \<and> part_001_detect (demo_env [] []) [SYSTEM_PROGRAM, ''--serum''] True"
proof -
  note T = main_serum_flag_detection [where E = "demo_env [] []" and s = initial_state]
  have 1: "main (demo_env [] []) initial_state [demoMarket, ''--list'', ''--serum''] =
     main_run (demo_env [] []) initial_state [demoMarket, ''--list'', ''--serum''] demoMarket True"
    using T [where args = "[demoMarket, ''--list'', ''--serum'']"
        and a = demoMarket and rest = "[''--list'', ''--serum'']"]
    by (simp add: demo_keys)
  have 2: "main (demo_env [] []) initial_state [demoMarket, ''--serum''] =
     main_run (demo_env [] []) initial_state [demoMarket, ''--serum''] demoMarket False"
    using T [where args = "[demoMarket, ''--serum'']"
        and a = demoMarket and rest = "[''--serum'']"
        and acct = "\<lparr>owner = OPENBOOK_PROGRAM_ID\<rparr>"]
    by (simp add: demo_validKey) (simp add: demo_env_def demo_keys)
  have 3: "main (demo_env [] []) initial_state [serumMarket, ''--serum''] =
     main_run (demo_env [] []) initial_state [serumMarket, ''--serum''] serumMarket True"
    using T [where args = "[serumMarket, ''--serum'']"
        and a = serumMarket and rest = "[''--serum'']"
        and acct = "\<lparr>owner = SERUM_PROGRAM_ID\<rparr>"]
    by (simp add: demo_validKey) (simp add: demo_env_def demo_keys)
  have 4: "main (demo_env [] []) initial_state [SYSTEM_PROGRAM, ''--serum''] =
     (NotAValidMarket, initial_state)"
    using T [where args = "[SYSTEM_PROGRAM, ''--serum'']"
        and a = SYSTEM_PROGRAM and rest = "[''--serum'']"
        and acct = "\<lparr>owner = NATIVE_LOADER\<rparr>"]
    by (simp add: demo_validKey) (simp add: demo_env_def demo_keys)
  have 5: "main (demo_env [] []) initial_state [absentKey, ''--serum''] =
     (MarketAccountNotFound, initial_state)"
    using T [where args = "[absentKey, ''--serum'']"
        and a = absentKey and rest = "[''--serum'']"]
    by (simp add: demo_validKey) (simp add: demo_env_def demo_keys)
  have 6: "main (demo_env [] []) initial_state [timeoutKey, ''--serum''] =
     main_run (demo_env [] []) initial_state [timeoutKey, ''--serum''] timeoutKey True"
    using T [where args = "[timeoutKey, ''--serum'']"
        and a = timeoutKey and rest = "[''--serum'']" and e = "Error ''fetch failed''"]
    by (simp add: demo_validKey) (simp add: demo_env_def demo_keys)
  have 7: "main (demo_env [] []) initial_state [''not-a-key'', ''--serum''] =
     (InvalidPublicKeyFormat, initial_state)"
    using T [where args = "[''not-a-key'', ''--serum'']"
        and a = "''not-a-key''" and rest = "[''--serum'']"]
    by (simp add: demo_validKey)
  have 8: "main ((demo_env [] [])\<lparr>getAccountInfo := \<lambda>a. Inl (Error ''Invalid public key format'')\<rparr>)
       initial_state [demoMarket, ''--serum''] = (InvalidPublicKeyFormat, initial_state)"
    using main_serum_flag_detection
       [where E = "(demo_env [] [])\<lparr>getAccountInfo := \<lambda>a. Inl (Error ''Invalid public key format'')\<rparr>"
        and s = initial_state and args = "[demoMarket, ''--serum'']"
        and a = demoMarket and rest = "[''--serum'']"]
    by (simp add: demo_env_def) (simp add: demo_keys)
  have 9: "\<not> part_001_detect (demo_env [] []) [demoMarket, ''--serum''] True"
    using T [where args = "[demoMarket, ''--serum'']"
        and a = demoMarket and rest = "[''--serum'']"]
    by (simp add: demo_validKey) (simp add: demo_env_def demo_keys)
  have 10: "part_001_detect (demo_env [] []) [SYSTEM_PROGRAM, ''--serum''] True"
    using T [where args = "[SYSTEM_PROGRAM, ''--serum'']"
        and a = SYSTEM_PROGRAM and rest = "[''--serum'']"]
    by (simp add: demo_validKey) (simp add: demo_env_def demo_keys)
  from 1 2 3 4 5 6 7 8 9 10 show ?thesis by blast
qed

section \<open>The store\<close>

text \<open>
  Claim C7 says that in an invocation that adds a market, a failure of identity
  resolution or of the market load leaves the store unchanged. One failure of identity
  resolution does not stop the workflow: when the fetch of the account throws, the catch
  block of the detection only prints, the program of the flag is assumed, and if the
  market then loads it is added and saved. In a world where the account fetch of the
  detection is refused and the market loads afterwards, adding the OpenBook market ends
  as an added market, with the market in \<open>KNOWN_MARKETS\<close> and the OpenBook store
  file written.
\<close>

theorem main_add_fetch_error_counterexample:
  "fst (main ((demo_env [] [])\<lparr>getAccountInfo := \<lambda>a. Inl (Error ''429 Too Many Requests'')\<rparr>)
          initial_state [demoMarket, ''--add'']) = MarketAdded False
   \<and> KNOWN_MARKETS
        (snd (main ((demo_env [] [])\<lparr>getAccountInfo := \<lambda>a. Inl (Error ''429 Too Many Requests'')\<rparr>)
                initial_state [demoMarket, ''--add''])) demoMarket \<noteq> None
   \<and> file_writes
        (snd (main ((demo_env [] [])\<lparr>getAccountInfo := \<lambda>a. Inl (Error ''429 Too Many Requests'')\<rparr>)
                initial_state [demoMarket, ''--add''])) = [''known_openbook_markets.json'']"
  by code_simp

text \<open>
  Claim C7 as amended. Take an invocation that adds a market. If identity resolution
  ends the invocation, which it does for an address that is no valid key, for an address
  without account and for an account that neither program owns, the whole state is as
  before. If the detection goes on and \<open>loadOpenBookMarket\<close> throws, the invocation
  does not end as an added market and its final state is the state that loading the store
  gave: both mappings are as loaded, and the files and the log of file writes are those of
  the start, so nothing was saved. A fetch of the account that throws anything but the
  invalid-key error is no such failure: the detection goes on with the program of the
  flag.
\<close>

theorem main_add_no_partial_add:
  assumes "args = a # rest" and "a \<noteq> []"
    and "''--help'' \<notin> set args" and "''-h'' \<notin> set args"
    and "''--version'' \<notin> set args" and "''-v'' \<notin> set args"
    and "''--update'' \<notin> set args"
    and "''--list'' \<notin> set args" and "''-l'' \<notin> set args"
    and "''--add'' \<in> set args \<or> ''-a'' \<in> set args"
    and "a \<noteq> ''--add''" and "a \<noteq> ''-a''" and "a \<noteq> ''--serum''" and "a \<noteq> ''-s''"
  shows "(main_detect E args a (''--serum'' \<in> set args \<or> ''-s'' \<in> set args) = Stop out
            \<longrightarrow> main E s args = (out, s))
       \<and> (main_detect E args a (''--serum'' \<in> set args \<or> ''-s'' \<in> set args) = Go u
            \<and> loadKnownMarketsFromFile E s u = Inr s1
            \<and> loadOpenBookMarket E a u = Inl e
            \<longrightarrow> snd (main E s args) = s1 \<and> fst (main E s args) \<noteq> MarketAdded u
                \<and> files s1 = files s \<and> file_writes s1 = file_writes s)
       \<and> (\<not> validKey E a \<longrightarrow> main E s args = (InvalidPublicKeyFormat, s))
       \<and> (validKey E a \<and> getAccountInfo E a = Inr None
            \<longrightarrow> main E s args = (MarketAccountNotFound, s))
       \<and> (validKey E a \<and> getAccountInfo E a = Inr (Some acct)
            \<and> owner acct \<noteq> OPENBOOK_PROGRAM_ID \<and> owner acct \<noteq> SERUM_PROGRAM_ID
            \<longrightarrow> main E s args = (NotAValidMarket, s))
       \<and> (validKey E a \<and> getAccountInfo E a = Inl e' \<and> e' \<noteq> Error ''Invalid public key format''
            \<longrightarrow> main_detect E args a (''--serum'' \<in> set args \<or> ''-s'' \<in> set args)
                  = Go (''--serum'' \<in> set args \<or> ''-s'' \<in> set args))"
proof -
  let ?F = "''--serum'' \<in> set args \<or> ''-s'' \<in> set args"
  have m: "main E s args =
           (case main_detect E args a ?F of
              Stop out \<Rightarrow> (out, s)
            | Go u \<Rightarrow> main_run E s args a u)"
    using assms(1-7) by (rule main_with_address)
  have r: "loadKnownMarketsFromFile E s u = Inr s1
             \<Longrightarrow> main_run E s args a u = main_add E s1 a u"
    using assms(8-14) by (simp add: main_run_def)
  have d: "validKey E a \<Longrightarrow>
           main_detect E args a ?F =
           (case getAccountInfo E a of
              Inl e \<Rightarrow> main_detect_catch e ?F
            | Inr None \<Rightarrow> Stop MarketAccountNotFound
            | Inr (Some acct) \<Rightarrow>
                if owner acct = SERUM_PROGRAM_ID then Go True
                else if owner acct = OPENBOOK_PROGRAM_ID then Go False
                else Stop NotAValidMarket)"
    using assms(8,9) by (simp add: main_detect_account)
  have 1: "main_detect E args a ?F = Stop out \<longrightarrow> main E s args = (out, s)"
    by (simp add: m)
  have 2: "main_detect E args a ?F = Go u
            \<and> loadKnownMarketsFromFile E s u = Inr s1
            \<and> loadOpenBookMarket E a u = Inl e
            \<longrightarrow> snd (main E s args) = s1 \<and> fst (main E s args) \<noteq> MarketAdded u
                \<and> files s1 = files s \<and> file_writes s1 = file_writes s"
    by (auto simp: m r main_add_load_failure dest: loadKnownMarketsFromFile_keeps)
  have 3: "\<not> validKey E a \<longrightarrow> main E s args = (InvalidPublicKeyFormat, s)"
    using assms(8,9)
    by (simp add: m main_detect_def createPublicKey_def main_detect_catch_def)
  have 4: "validKey E a \<and> getAccountInfo E a = Inr None
            \<longrightarrow> main E s args = (MarketAccountNotFound, s)"
    by (simp add: m d)
  have 5: "validKey E a \<and> getAccountInfo E a = Inr (Some acct)
            \<and> owner acct \<noteq> OPENBOOK_PROGRAM_ID \<and> owner acct \<noteq> SERUM_PROGRAM_ID
            \<longrightarrow> main E s args = (NotAValidMarket, s)"
    by (simp add: m d)
  have 6: "validKey E a \<and> getAccountInfo E a = Inl e' \<and> e' \<noteq> Error ''Invalid public key format''
            \<longrightarrow> main_detect E args a ?F = Go ?F"
    by (simp add: d main_detect_catch_def)
  from 1 2 3 4 5 6 show ?thesis by blast
qed

text \<open>
  The amended claim on invocations that start with an OpenBook store file on disk: adding
  the system program, an address without account and a text that is no key, which the
  detection refuses; adding an OpenBook account that does not decode as a market; and
  adding a key whose fetch fails, where the detection goes on for OpenBook.
\<close>

theorem main_add_no_partial_add_witness:
  "main (demo_env [] [])
     (initial_state\<lparr>files := [''known_openbook_markets.json'' \<mapsto> Text ''{}'']\<rparr>)
     [SYSTEM_PROGRAM, ''--add''] =
     (NotAValidMarket,
      initial_state\<lparr>files := [''known_openbook_markets.json'' \<mapsto> Text ''{}'']\<rparr>)
   \<and> main (demo_env [] [])
     (initial_state\<lparr>files := [''known_openbook_markets.json'' \<mapsto> Text ''{}'']\<rparr>)
     [absentKey, ''--add''] =
     (MarketAccountNotFound,
      initial_state\<lparr>files := [''known_openbook_markets.json'' \<mapsto> Text ''{}'']\<rparr>)
   \<and> main (demo_env [] [])
     (initial_state\<lparr>files := [''known_openbook_markets.json'' \<mapsto> Text ''{}'']\<rparr>)
     [''not-a-key'', ''--add''] =
     (InvalidPublicKeyFormat,
      initial_state\<lparr>files := [''known_openbook_markets.json'' \<mapsto> Text ''{}'']\<rparr>)
   \<and> snd (main (demo_env [] [])
            (initial_state\<lparr>files := [''known_openbook_markets.json'' \<mapsto> Text ''{}'']\<rparr>)
            [brokenMarket, ''--add'']) =
     initial_state\<lparr>files := [''known_openbook_markets.json'' \<mapsto> Text ''{}'']\<rparr>
   \<and> fst (main (demo_env [] [])
            (initial_state\<lparr>files := [''known_openbook_markets.json'' \<mapsto> Text ''{}'']\<rparr>)
            [brokenMarket, ''--add'']) \<noteq> MarketAdded False
   \<and> main_detect (demo_env [] []) [timeoutKey, ''--add''] timeoutKey False = Go False"
proof -
  let ?E = "demo_env [] []"
  let ?s = "initial_state\<lparr>files := [''known_openbook_markets.json'' \<mapsto> Text ''{}'']\<rparr>"
  note T = main_add_no_partial_add [where E = ?E and s = ?s]
  have d2: "main_detect ?E [brokenMarket, ''--add''] brokenMarket False = Go False"
    by (simp add: main_detect_def createPublicKey_def demo_env_def demo_keys)
  have l: "loadKnownMarketsFromFile ?E ?s False = Inr ?s"
    by (simp add: loadKnownMarketsFromFile_def loadKnownMarketsFromFile_try_def
          storeFile_def demo_env_def initial_state_def)
  have a: "main ?E ?s [SYSTEM_PROGRAM, ''--add''] = (NotAValidMarket, ?s)"
    using T [where args = "[SYSTEM_PROGRAM, ''--add'']"
        and a = SYSTEM_PROGRAM and rest = "[''--add'']"
        and acct = "\<lparr>owner = NATIVE_LOADER\<rparr>"]
    by (simp add: demo_validKey) (simp add: demo_env_def demo_keys)
  have b: "main ?E ?s [absentKey, ''--add''] = (MarketAccountNotFound, ?s)"
    using T [where args = "[absentKey, ''--add'']"
        and a = absentKey and rest = "[''--add'']"]
    by (simp add: demo_validKey) (simp add: demo_env_def demo_keys)
  have c: "main ?E ?s [''not-a-key'', ''--add''] = (InvalidPublicKeyFormat, ?s)"
    using T [where args = "[''not-a-key'', ''--add'']"
        and a = "''not-a-key''" and rest = "[''--add'']"]
    by (simp add: demo_validKey)
  have d: "snd (main ?E ?s [brokenMarket, ''--add'']) = ?s
           \<and> fst (main ?E ?s [brokenMarket, ''--add'']) \<noteq> MarketAdded False"
    using T [where args = "[brokenMarket, ''--add'']"
        and a = brokenMarket and rest = "[''--add'']"
        and u = False and ?s1.0 = ?s
        and e = "Error ''Failed to load OpenBook market: Invalid market''"]
      d2 l demo_load_broken [of "[]" "[]"]
    by (simp add: brokenMarket_def)
  have e: "main_detect ?E [timeoutKey, ''--add''] timeoutKey False = Go False"
    using T [where args = "[timeoutKey, ''--add'']"
        and a = timeoutKey and rest = "[''--add'']" and e' = "Error ''fetch failed''"]
    by (simp add: demo_validKey) (simp add: demo_env_def demo_keys)
  from a b c d e show ?thesis by blast
qed

text \<open>
  Claim C8 says that adding a market leaves every existing entry of the symbol mapping
  unchanged. An entry that is the empty string is taken for no entry: adding the market
  of the small world to a store where the SOL mint has the empty symbol writes the first
  8 characters of the mint over it.
\<close>

theorem addMarket_symbols_counterexample:
  "KNOWN_TOKEN_SYMBOLS
     (snd (addMarketToKnownMarkets (demo_env [] [])
             (initial_state\<lparr>KNOWN_TOKEN_SYMBOLS := [SOL_MINT \<mapsto> '''']\<rparr>) demoMarket False))
     SOL_MINT = Some ''So111111''"
  by code_simp

text \<open>
  Claim C8 as amended: adding a market leaves unchanged every entry of the symbol mapping
  that is a non-empty string, and an entry is written only for an identifier that has no
  entry or has the empty string as entry.
\<close>

theorem addMarket_symbols_first_writer:
  assumes "addMarketToKnownMarkets E s a u = (r, s1)"
  shows "(KNOWN_TOKEN_SYMBOLS s k = Some x \<and> x \<noteq> [] \<longrightarrow> KNOWN_TOKEN_SYMBOLS s1 k = Some x)
       \<and> (KNOWN_TOKEN_SYMBOLS s1 k \<noteq> KNOWN_TOKEN_SYMBOLS s k
            \<longrightarrow> KNOWN_TOKEN_SYMBOLS s k = None \<or> KNOWN_TOKEN_SYMBOLS s k = Some [])"
proof (cases "loadOpenBookMarket E a u")
  case (Inl e)
  with assms show ?thesis by (simp add: addMarketToKnownMarkets_def)
next
  case (Inr market)
  obtain bm s2 where b: "getTokenMetadata E s (baseMintAddress market) = (Inr bm, s2)"
    using getTokenMetadata_Inr by blast
  obtain qm s3 where q: "getTokenMetadata E s2 (quoteMintAddress market) = (Inr qm, s3)"
    using getTokenMetadata_Inr by blast
  have k2: "KNOWN_TOKEN_SYMBOLS s2 = KNOWN_TOKEN_SYMBOLS s"
    using getTokenMetadata_state [OF b] by simp
  have k3: "KNOWN_TOKEN_SYMBOLS s3 = KNOWN_TOKEN_SYMBOLS s"
    using getTokenMetadata_state [OF q] k2 by simp
  from assms show ?thesis
    by (auto simp: addMarketToKnownMarkets_def Inr b q Let_def k3 knownSymbol_def
          split: if_splits option.splits)
qed

text \<open>
  The amended claim on a store where the SOL mint has the symbol X: after the market of
  the small world is added the symbol is still X.
\<close>

theorem addMarket_symbols_first_writer_witness:
  "KNOWN_TOKEN_SYMBOLS
     (snd (addMarketToKnownMarkets (demo_env [] [])
             (initial_state\<lparr>KNOWN_TOKEN_SYMBOLS := [SOL_MINT \<mapsto> ''X'']\<rparr>) demoMarket False))
     SOL_MINT = Some ''X''"
proof -
  let ?s = "initial_state\<lparr>KNOWN_TOKEN_SYMBOLS := [SOL_MINT \<mapsto> ''X'']\<rparr>"
  let ?R = "addMarketToKnownMarkets (demo_env [] []) ?s demoMarket False"
  have h: "?R = (fst ?R, snd ?R)" by simp
  have k: "KNOWN_TOKEN_SYMBOLS ?s SOL_MINT = Some ''X'' \<and> ''X'' \<noteq> []" by simp
  from addMarket_symbols_first_writer [OF h, of SOL_MINT "''X''"] k
  show ?thesis by blast
qed

text \<open>
  Claim C9: \<open>loadKnownMarketsFromFile\<close> returns normally in every state and for either
  program, and it writes no file. When the store file is missing, cannot be read, or
  holds a text that \<^verbatim>\<open>JSON.parse\<close> rejects or reads as null, both mappings are empty
  afterwards.
\<close>

theorem loadKnownMarketsFromFile_total:
  "\<exists>s1. loadKnownMarketsFromFile E s u = Inr s1
      \<and> files s1 = files s \<and> file_writes s1 = file_writes s
      \<and> ((files s (storeFile u) = None
           \<or> files s (storeFile u) = Some Unreadable
           \<or> (\<exists>t. files s (storeFile u) = Some (Text t)
                  \<and> (JSON_parse E t = SyntaxError \<or> JSON_parse E t = JsonNull)))
          \<longrightarrow> KNOWN_MARKETS s1 = Map.empty \<and> KNOWN_TOKEN_SYMBOLS s1 = Map.empty)"
  by (auto simp: loadKnownMarketsFromFile_def loadKnownMarketsFromFile_try_def emptyStore_def
        split: sum.splits option.splits file_entry.splits json.splits)

text \<open>
  Claim C9 with a symbol in memory, on a missing store file and on a store file whose
  text is cut off.
\<close>

theorem loadKnownMarketsFromFile_total_witness:
  "(\<exists>s1. loadKnownMarketsFromFile (demo_env [] [])
            (initial_state\<lparr>KNOWN_TOKEN_SYMBOLS := [SOL_MINT \<mapsto> ''SOL'']\<rparr>) False = Inr s1
          \<and> KNOWN_MARKETS s1 = Map.empty \<and> KNOWN_TOKEN_SYMBOLS s1 = Map.empty)
   \<and> (\<exists>s1. loadKnownMarketsFromFile (demo_env [] [])
            (initial_state\<lparr>KNOWN_TOKEN_SYMBOLS := [SOL_MINT \<mapsto> ''SOL''],
                           files := [''known_serum_markets.json'' \<mapsto> Text ''{ markets: '']\<rparr>)
            True = Inr s1
          \<and> KNOWN_MARKETS s1 = Map.empty \<and> KNOWN_TOKEN_SYMBOLS s1 = Map.empty)"
proof -
  let ?s = "initial_state\<lparr>KNOWN_TOKEN_SYMBOLS := [SOL_MINT \<mapsto> ''SOL'']\<rparr>"
  let ?t = "initial_state\<lparr>KNOWN_TOKEN_SYMBOLS := [SOL_MINT \<mapsto> ''SOL''],
                          files := [''known_serum_markets.json'' \<mapsto> Text ''{ markets: '']\<rparr>"
  have 1: "files ?s (storeFile False) = None"
    by (simp add: initial_state_def)
  have 2: "files ?t (storeFile True) = Some (Text ''{ markets: '')"
    by (simp add: storeFile_def)
  have 3: "JSON_parse (demo_env [] []) ''{ markets: '' = SyntaxError"
    by (simp add: demo_env_def)
  from loadKnownMarketsFromFile_total [of "demo_env [] []" ?s False] 1
  have a: "\<exists>s1. loadKnownMarketsFromFile (demo_env [] []) ?s False = Inr s1
             \<and> KNOWN_MARKETS s1 = Map.empty \<and> KNOWN_TOKEN_SYMBOLS s1 = Map.empty"
    by blast
  from loadKnownMarketsFromFile_total [of "demo_env [] []" ?t True] 2 3
  have b: "\<exists>s1. loadKnownMarketsFromFile (demo_env [] []) ?t True = Inr s1
             \<and> KNOWN_MARKETS s1 = Map.empty \<and> KNOWN_TOKEN_SYMBOLS s1 = Map.empty"
    by blast
  from a b show ?thesis by blast
qed

section \<open>Market statistics\<close>

text \<open>
  Claim C10: when the book that \<open>getMarketStats\<close> reads has a level on both sides, the
  statistics are returned with the prices of the first bid and the first ask as best bid
  and best ask. A best bid of 0 gives no spread and no spread percentage; a best ask
  equal to the best bid gives no spread percentage, the spread being 0 when the price is
  not 0; for two prices that are doubles, a positive best bid below the best ask gives
  the difference as spread and the spread divided by the best bid, times 100, as spread
  percentage, each operation being the one on doubles.
\<close>

theorem getMarketStats_spread:
  assumes "getRealOrderBook E a 1 u = Inr book"
    and "bids book = b # bs" and "asks book = k # ks"
  shows "\<exists>st. getMarketStats E a u = Inr st
           \<and> bestBid st = Some (Num (price b)) \<and> bestAsk st = Some (Num (price k))
           \<and> (price b = 0 \<longrightarrow> spread st = None \<and> spreadPercentage st = None)
           \<and> (price k = price b \<longrightarrow> spreadPercentage st = None)
           \<and> (price k = price b \<and> price b \<noteq> 0 \<longrightarrow> spread st = Some (Num 0))
           \<and> (is_double64 (price b) \<and> is_double64 (price k)
                \<and> 0 < price b \<and> price b < price k \<longrightarrow>
                spread st = Some (fsub (Num (price k)) (Num (price b)))
                \<and> spreadPercentage st =
                    Some (fmul (fdiv (fsub (Num (price k)) (Num (price b))) (Num (price b)))
                            (Num 100)))"
proof -
  have z: "fsub (Num x) (Num x) = Num 0" for x
    by (simp add: fsub_Num round64_0)
  have t: "is_double64 (price b) \<and> is_double64 (price k) \<and> price b < price k
             \<Longrightarrow> truthy (Some (fsub (Num (price k)) (Num (price b))))"
    by (simp add: fsub_truthy)
  show ?thesis
    using assms t by (auto simp: getMarketStats_def truthy_def Let_def z)
qed

text \<open>
  Claim C10 on three books whose prices are doubles: a best bid of 0; a best ask equal to
  the best bid, both the double written 1.2; and the scenario of the specification, with
  the doubles written 1.2 and 1.21, where the spread is the double printed as
  0.010000000000000009 and the spread percentage the double printed as
  0.8333333333333341.
\<close>

theorem getMarketStats_spread_witness:
  "(\<exists>st. getMarketStats
            (demo_env [(0, 50)] [(1362338887279575 / 1125899906842624, 40)])
            demoMarket False = Inr st
         \<and> spread st = None \<and> spreadPercentage st = None)
   \<and> (\<exists>st. getMarketStats
            (demo_env [(5404319552844595 / 4503599627370496, 50)]
                      [(5404319552844595 / 4503599627370496, 40)])
            demoMarket False = Inr st
         \<and> spread st = Some (Num 0) \<and> spreadPercentage st = None)
   \<and> (\<exists>st. getMarketStats
            (demo_env [(5404319552844595 / 4503599627370496, 50),
                       (2679641778285445 / 2251799813685248, 30)]
                      [(1362338887279575 / 1125899906842624, 40),
                       (5494391545392005 / 4503599627370496, 10)])
            demoMarket False = Inr st
         \<and> bestBid st = Some (Num (5404319552844595 / 4503599627370496))
         \<and> bestAsk st = Some (Num (1362338887279575 / 1125899906842624))
         \<and> spread st = Some (Num (45035996273705 / 4503599627370496))
         \<and> spreadPercentage st = Some (Num (3752999689475417 / 4503599627370496)))"
proof -
  have d1: "is_double64 (5404319552844595 / 4503599627370496)"
    unfolding is_double64_def
    by (subst round64_pos [where e = 0])
       (simp_all add: roundTiesToEven_def Let_def floor_rat_numeral)
  have d2: "is_double64 (1362338887279575 / 1125899906842624)"
    unfolding is_double64_def
    by (subst round64_pos [where e = 0])
       (simp_all add: roundTiesToEven_def Let_def floor_rat_numeral)
  have s: "fsub (Num (1362338887279575 / 1125899906842624))
                (Num (5404319552844595 / 4503599627370496))
             = Num (45035996273705 / 4503599627370496)"
    unfolding fsub_Num
    by (subst round64_pos [where e = "- 7"])
       (simp_all add: roundTiesToEven_def Let_def floor_rat_numeral)
  have q: "fdiv (Num (45035996273705 / 4503599627370496))
                (Num (5404319552844595 / 4503599627370496))
             = Num (2401919801264267 / 288230376151711744)"
    unfolding fdiv_def
    apply simp
    by (subst round64_pos [where e = "- 7"])
       (simp_all add: roundTiesToEven_def Let_def floor_rat_numeral)
  have p: "fmul (Num (2401919801264267 / 288230376151711744)) (Num 100)
             = Num (3752999689475417 / 4503599627370496)"
    unfolding fmul_def
    apply simp
    by (subst round64_pos [where e = "- 1"])
       (simp_all add: roundTiesToEven_def Let_def floor_rat_numeral)
  have a: "\<exists>st. getMarketStats
            (demo_env [(0, 50)] [(1362338887279575 / 1125899906842624, 40)])
            demoMarket False = Inr st
         \<and> spread st = None \<and> spreadPercentage st = None"
    using getMarketStats_spread
        [OF demo_book [of "[(0, 50)]" "[(1362338887279575 / 1125899906842624, 40)]" 1],
         of "\<lparr>price = 0, lsize = 50, side = Bid\<rparr>" "[]"
            "\<lparr>price = 1362338887279575 / 1125899906842624, lsize = 40, side = Ask\<rparr>" "[]"]
    by auto
  have b: "\<exists>st. getMarketStats
            (demo_env [(5404319552844595 / 4503599627370496, 50)]
                      [(5404319552844595 / 4503599627370496, 40)])
            demoMarket False = Inr st
         \<and> spread st = Some (Num 0) \<and> spreadPercentage st = None"
    using getMarketStats_spread
        [OF demo_book [of "[(5404319552844595 / 4503599627370496, 50)]"
                          "[(5404319552844595 / 4503599627370496, 40)]" 1],
         of "\<lparr>price = 5404319552844595 / 4503599627370496, lsize = 50, side = Bid\<rparr>" "[]"
            "\<lparr>price = 5404319552844595 / 4503599627370496, lsize = 40, side = Ask\<rparr>" "[]"]
    by auto
  have c: "\<exists>st. getMarketStats
            (demo_env [(5404319552844595 / 4503599627370496, 50),
                       (2679641778285445 / 2251799813685248, 30)]
                      [(1362338887279575 / 1125899906842624, 40),
                       (5494391545392005 / 4503599627370496, 10)])
            demoMarket False = Inr st
         \<and> bestBid st = Some (Num (5404319552844595 / 4503599627370496))
         \<and> bestAsk st = Some (Num (1362338887279575 / 1125899906842624))
         \<and> spread st = Some (Num (45035996273705 / 4503599627370496))
         \<and> spreadPercentage st = Some (Num (3752999689475417 / 4503599627370496))"
    using getMarketStats_spread
        [OF demo_book [of "[(5404319552844595 / 4503599627370496, 50),
                            (2679641778285445 / 2251799813685248, 30)]"
                          "[(1362338887279575 / 1125899906842624, 40),
                            (5494391545392005 / 4503599627370496, 10)]" 1],
         of "\<lparr>price = 5404319552844595 / 4503599627370496, lsize = 50, side = Bid\<rparr>"
            "[\<lparr>price = 2679641778285445 / 2251799813685248, lsize = 30, side = Bid\<rparr>]"
            "\<lparr>price = 1362338887279575 / 1125899906842624, lsize = 40, side = Ask\<rparr>"
            "[\<lparr>price = 5494391545392005 / 4503599627370496, lsize = 10, side = Ask\<rparr>]"]
      d1 d2
    by (auto simp: s q p)
  from a b c show ?thesis by blast
qed

end
